theory Spec2Isabelle
  imports Main "HOL-Library.Sublist" "HOL-Library.AList"
begin

section \<open>JSON documents and the Python operations on them\<close>

text \<open>
  The three scripts exchange JSON documents and handle them as untyped Python values.
  A document is a value of \<open>json\<close>; an object is an association list in insertion
  order, standing for a Python \<open>dict\<close> (keys distinct, as \<open>json.load\<close> yields them).
  Numbers are the integers of JSON. Text is a list of characters and whatever a script
  takes from outside the repository (the \<open>re\<close> engine, \<open>str\<close>, the file system, the
  output of \<open>npm audit\<close>, the clock) is a parameter of the model.
\<close>

datatype json =
    JNull
  | JBool bool
  | JInt int
  | JStr string
  | JArr "json list"
  | JObj "(string \<times> json) list"

text \<open>An uncaught Python exception ends the process; the model returns it as a value.\<close>

datatype error = AttributeError | TypeError | KeyError

text \<open>\<open>bool(x)\<close>, the test of \<open>if x:\<close>.\<close>

fun truthy :: "json \<Rightarrow> bool" where
  "truthy JNull = False"
| "truthy (JBool b) = b"
| "truthy (JInt n) = (n \<noteq> 0)"
| "truthy (JStr s) = (s \<noteq> [])"
| "truthy (JArr xs) = (xs \<noteq> [])"
| "truthy (JObj kvs) = (kvs \<noteq> [])"

text \<open>\<open>x.get(k, d)\<close>: only a dict has the method.\<close>

fun py_get :: "json \<Rightarrow> string \<Rightarrow> json \<Rightarrow> error + json" where
  "py_get (JObj kvs) k d = Inr (case map_of kvs k of Some v \<Rightarrow> v | None \<Rightarrow> d)"
| "py_get _ k d = Inl AttributeError"

text \<open>\<open>k in x\<close> for a string \<open>k\<close>: a key of a dict, an element of a list, a substring
  of a string; other values are not iterable.\<close>

fun py_in :: "string \<Rightarrow> json \<Rightarrow> error + bool" where
  "py_in k (JObj kvs) = Inr (map_of kvs k \<noteq> None)"
| "py_in k (JArr xs) = Inr (JStr k \<in> set xs)"
| "py_in k (JStr s) = Inr (sublist k s)"
| "py_in k _ = Inl TypeError"

text \<open>\<open>x[k]\<close> for a string \<open>k\<close>.\<close>

fun py_getitem :: "json \<Rightarrow> string \<Rightarrow> error + json" where
  "py_getitem (JObj kvs) k = (case map_of kvs k of Some v \<Rightarrow> Inr v | None \<Rightarrow> Inl KeyError)"
| "py_getitem _ k = Inl TypeError"

text \<open>\<open>x.items()\<close>.\<close>

fun py_items :: "json \<Rightarrow> error + (string \<times> json) list" where
  "py_items (JObj kvs) = Inr kvs"
| "py_items _ = Inl AttributeError"

text \<open>\<open>len(x)\<close>.\<close>

fun py_len :: "json \<Rightarrow> error + nat" where
  "py_len (JStr s) = Inr (length s)"
| "py_len (JArr xs) = Inr (length xs)"
| "py_len (JObj kvs) = Inr (length kvs)"
| "py_len _ = Inl TypeError"

text \<open>\<open>for y in x\<close>: the elements of a list, the keys of a dict, the characters of a
  string.\<close>

fun py_iter :: "json \<Rightarrow> error + json list" where
  "py_iter (JArr xs) = Inr xs"
| "py_iter (JObj kvs) = Inr (map (\<lambda>kv. JStr (fst kv)) kvs)"
| "py_iter (JStr s) = Inr (map (\<lambda>c. JStr [c]) s)"
| "py_iter _ = Inl TypeError"

text \<open>The integer a value stands for in \<open>n + x\<close> and \<open>x > n\<close>; \<open>True\<close> is 1.\<close>

fun py_number :: "json \<Rightarrow> error + int" where
  "py_number (JInt n) = Inr n"
| "py_number (JBool b) = Inr (if b then 1 else 0)"
| "py_number _ = Inl TypeError"

definition py_gt :: "json \<Rightarrow> int \<Rightarrow> error + bool" where
  "py_gt x n = (case py_number x of Inl e \<Rightarrow> Inl e | Inr m \<Rightarrow> Inr (m > n))"

text \<open>\<open>str.lower\<close> on the ASCII letters.\<close>

definition lower_char :: "char \<Rightarrow> char" where
  "lower_char c =
     (let n = (of_char c :: nat) in if 65 \<le> n \<and> n \<le> 90 then char_of (n + 32) else c)"

definition lower :: "string \<Rightarrow> string" where
  "lower s = map lower_char s"


section \<open>The compliance scanner (compliance-scan.py)\<close>

subsection \<open>The outside world of a scan\<close>

text \<open>
  \<open>finditer name text\<close> stands for \<open>pattern.finditer(text)\<close> of the compiled expression
  registered under \<open>name\<close>: the start offsets of the successive matches.
  \<open>read_text path\<close> is the text of a file, \<open>None\<close> when it does not exist or opening
  or reading it raises. \<open>npm_audit_output\<close> is the parsed standard output of
  \<open>npm audit --json\<close>, \<open>None\<close> when the command cannot be run, prints nothing or
  prints no JSON.
\<close>

record world =
  finditer :: "string \<Rightarrow> string \<Rightarrow> nat list"
  py_str :: "json \<Rightarrow> string"
  glob :: "string \<Rightarrow> string list"
  read_text :: "string \<Rightarrow> string option"
  npm_audit_output :: "json option"
  now :: string

subsection \<open>ComplianceScanner.__init__\<close>

record scan_results =
  secrets_found :: "json list"
  payment_issues :: "json list"
  dependency_issues :: "json list"
  high_severity_count :: int
  medium_severity_count :: int
  low_severity_count :: int
  scan_timestamp :: "string option"
  scanned_files :: int

definition init_results :: scan_results where
  "init_results =
     \<lparr>secrets_found = [], payment_issues = [], dependency_issues = [],
      high_severity_count = 0, medium_severity_count = 0, low_severity_count = 0,
      scan_timestamp = None, scanned_files = 0\<rparr>"

text \<open>The rule names of \<open>secret_patterns\<close> and \<open>payment_patterns\<close>, in the order of the
  dict literals.\<close>

definition secret_patterns :: "string list" where
  "secret_patterns =
     [''api_key'', ''secret_key'', ''password'', ''jwt_token'', ''private_key'',
      ''aws_access_key'', ''aws_secret_key'', ''github_token'', ''bearer_token'',
      ''stripe_key'']"

definition payment_patterns :: "string list" where
  "payment_patterns = [''credit_card'', ''cvv'', ''expiry'', ''payment_logging'']"

text \<open>
  The four expressions of \<open>vulnerable_packages\<close> use literal text, \<open>\s*\<close> and one
  negated character only, so \<open>re.search\<close> on them is modelled in full: an expression is
  a sequence of items, matched at some offset of the text.
\<close>

datatype rx_item = Lit string | Spaces | NotChar char

definition is_space :: "char \<Rightarrow> bool" where
  "is_space c =
     (let n = (of_char c :: nat)
      in (9 \<le> n \<and> n \<le> 13) \<or> (28 \<le> n \<and> n \<le> 32) \<or> n = 133 \<or> n = 160)"

fun match_here :: "rx_item list \<Rightarrow> string \<Rightarrow> bool" where
  "match_here [] s = True"
| "match_here (Lit l # r) s = (prefix l s \<and> match_here r (drop (length l) s))"
| "match_here (Spaces # r) s =
     list_ex (\<lambda>k. match_here r (drop k s)) [0 ..< Suc (length (takeWhile is_space s))]"
| "match_here (NotChar c # r) s =
     (case s of [] \<Rightarrow> False | x # xs \<Rightarrow> x \<noteq> c \<and> match_here r xs)"

definition re_search :: "rx_item list \<Rightarrow> string \<Rightarrow> bool" where
  "re_search p s = list_ex (\<lambda>k. match_here p (drop k s)) [0 ..< Suc (length s)]"

definition vulnerable_packages :: "(string \<times> rx_item list) list" where
  "vulnerable_packages =
     [(''lodash'', [Lit ''\"lodash\"'', Spaces, Lit '':'', Spaces, Lit ''\"'', NotChar CHR ''4'']),
      (''moment'', [Lit ''\"moment\"'', Spaces, Lit '':'', Spaces, Lit ''\"'']),
      (''node-uuid'', [Lit ''\"node-uuid\"'']),
      (''request'', [Lit ''\"request\"'', Spaces, Lit '':'', Spaces, Lit ''\"''])]"

subsection \<open>ComplianceScanner.scan_file\<close>

record file_results =
  secrets :: "json list"
  file_payment_issues :: "json list"
  file_path :: string

text \<open>\<open>content[:match.start()].count('\n') + 1\<close>\<close>

definition line_of :: "string \<Rightarrow> nat \<Rightarrow> int" where
  "line_of content start = int (count_list (take start content) (CHR 0x0A)) + 1"

definition secret_info :: "string \<Rightarrow> string \<Rightarrow> string \<Rightarrow> nat \<Rightarrow> json" where
  "secret_info secret_type filepath content start =
     JObj [(''type'', JStr secret_type),
           (''file'', JStr filepath),
           (''line'', JInt (line_of content start)),
           (''severity'', JStr ''high''),
           (''message'', JStr (''Potential '' @ secret_type @ '' found''))]"

definition payment_info :: "string \<Rightarrow> string \<Rightarrow> string \<Rightarrow> nat \<Rightarrow> json" where
  "payment_info payment_type filepath content start =
     JObj [(''type'', JStr payment_type),
           (''file'', JStr filepath),
           (''line'', JInt (line_of content start)),
           (''severity'',
              JStr (if payment_type \<in> set [''credit_card'', ''cvv'']
                    then ''high'' else ''medium'')),
           (''message'', JStr (''Potential '' @ payment_type @ '' data found''))]"

text \<open>The body of the inner loop over the matches of one secret rule.\<close>

definition secret_match ::
  "string \<Rightarrow> string \<Rightarrow> string \<Rightarrow> nat \<Rightarrow> file_results \<times> scan_results \<Rightarrow> file_results \<times> scan_results"
where
  "secret_match secret_type filepath content start = (\<lambda>(fr, res).
     (fr\<lparr>secrets := secrets fr @ [secret_info secret_type filepath content start]\<rparr>,
      res\<lparr>high_severity_count := high_severity_count res + 1\<rparr>))"

text \<open>The body of the inner loop over the matches of one payment rule.\<close>

definition payment_match ::
  "string \<Rightarrow> string \<Rightarrow> string \<Rightarrow> nat \<Rightarrow> file_results \<times> scan_results \<Rightarrow> file_results \<times> scan_results"
where
  "payment_match payment_type filepath content start = (\<lambda>(fr, res).
     (let info = payment_info payment_type filepath content start;
          fr' = fr\<lparr>file_payment_issues := file_payment_issues fr @ [info]\<rparr>
      in if py_get info ''severity'' JNull = Inr (JStr ''high'')
         then (fr', res\<lparr>high_severity_count := high_severity_count res + 1\<rparr>)
         else (fr', res\<lparr>medium_severity_count := medium_severity_count res + 1\<rparr>)))"

text \<open>A file that cannot be opened is reported and skipped: the handler leaves the
  empty \<open>file_results\<close> and the tallies as they were.\<close>

definition scan_file ::
  "(string \<Rightarrow> string \<Rightarrow> nat list) \<Rightarrow> string \<Rightarrow> string option \<Rightarrow> scan_results
     \<Rightarrow> file_results \<times> scan_results"
where
  "scan_file fi filepath opened res =
     (let fr0 = \<lparr>secrets = [], file_payment_issues = [], file_path = filepath\<rparr>
      in case opened of
           None \<Rightarrow> (fr0, res)
         | Some content \<Rightarrow>
             fold (\<lambda>payment_type. fold (payment_match payment_type filepath content)
                                       (fi payment_type content))
               payment_patterns
               (fold (\<lambda>secret_type. fold (secret_match secret_type filepath content)
                                         (fi secret_type content))
                  secret_patterns (fr0, res)))"

subsection \<open>ComplianceScanner.scan_dependencies\<close>

definition package_files :: "string list" where
  "package_files = [''package.json'', ''package-lock.json'', ''yarn.lock'']"

definition dependency_issue :: "string \<Rightarrow> string \<Rightarrow> json" where
  "dependency_issue package_name package_file =
     JObj [(''type'', JStr ''vulnerable_dependency''),
           (''package'', JStr package_name),
           (''file'', JStr package_file),
           (''severity'', JStr ''medium''),
           (''message'', JStr (''Potentially vulnerable package: '' @ package_name))]"

definition scan_manifest :: "string \<Rightarrow> string \<Rightarrow> scan_results \<Rightarrow> scan_results" where
  "scan_manifest package_file content =
     fold (\<lambda>(package_name, pattern) res.
             if re_search pattern content
             then res\<lparr>dependency_issues :=
                        dependency_issues res @ [dependency_issue package_name package_file],
                      medium_severity_count := medium_severity_count res + 1\<rparr>
             else res)
          vulnerable_packages"

definition scan_dependencies :: "(string \<Rightarrow> string option) \<Rightarrow> scan_results \<Rightarrow> scan_results" where
  "scan_dependencies rd =
     fold (\<lambda>package_file res.
             case rd package_file of
               None \<Rightarrow> res
             | Some content \<Rightarrow> scan_manifest package_file content res)
          package_files"

subsection \<open>ComplianceScanner.get_typescript_files\<close>

definition get_typescript_files :: "(string \<Rightarrow> string list) \<Rightarrow> string list" where
  "get_typescript_files gl =
     (let patterns = [''src/**/*.ts'', ''src/**/*.tsx'', ''src/**/*.js'', ''src/**/*.jsx'',
                      ''lib/**/*.ts'', ''lib/**/*.js'', ''*.ts'', ''*.js''];
          files = concat (map gl patterns)
      in filter (\<lambda>file. \<not> list_ex (\<lambda>exclude. sublist exclude file)
                            [''node_modules'', ''dist/'', ''build/'', ''.test.'', ''.spec.'',
                             ''coverage/''])
           files)"

subsection \<open>ComplianceScanner.run_npm_audit\<close>

text \<open>The loop over the entries of \<open>vulnerabilities\<close>. An entry that is no dict raises
  in \<open>vuln_data.get\<close> before anything is recorded for it; the handler around the whole
  method ends the loop there and keeps what the earlier entries recorded.\<close>

fun npm_vulnerabilities ::
  "(json \<Rightarrow> string) \<Rightarrow> (string \<times> json) list \<Rightarrow> scan_results \<Rightarrow> scan_results"
where
  "npm_vulnerabilities str [] res = res"
| "npm_vulnerabilities str ((vuln_name, vuln_data) # rest) res =
     (case py_get vuln_data ''severity'' (JStr ''unknown'') of
        Inl e \<Rightarrow> res
      | Inr severity \<Rightarrow>
          (case py_get vuln_data ''via'' (JArr []) of
             Inl e \<Rightarrow> res
           | Inr via \<Rightarrow>
               (let issue =
                      JObj [(''type'', JStr ''npm_audit_vulnerability''),
                            (''package'', JStr vuln_name),
                            (''severity'', severity),
                            (''message'',
                               JStr (''npm audit found '' @ str severity
                                     @ '' vulnerability in '' @ vuln_name)),
                            (''via'', via)];
                    res1 = res\<lparr>dependency_issues := dependency_issues res @ [issue]\<rparr>;
                    res2 =
                      (if severity = JStr ''high'' \<or> severity = JStr ''critical''
                       then res1\<lparr>high_severity_count := high_severity_count res1 + 1\<rparr>
                       else if severity = JStr ''moderate''
                       then res1\<lparr>medium_severity_count := medium_severity_count res1 + 1\<rparr>
                       else res1\<lparr>low_severity_count := low_severity_count res1 + 1\<rparr>)
                in npm_vulnerabilities str rest res2)))"

definition run_npm_audit :: "(json \<Rightarrow> string) \<Rightarrow> json option \<Rightarrow> scan_results \<Rightarrow> scan_results" where
  "run_npm_audit str output res =
     (case output of
        None \<Rightarrow> res
      | Some audit_data \<Rightarrow>
          (case py_in ''vulnerabilities'' audit_data of
             Inl e \<Rightarrow> res
           | Inr False \<Rightarrow> res
           | Inr True \<Rightarrow>
               (case py_getitem audit_data ''vulnerabilities'' of
                  Inl e \<Rightarrow> res
                | Inr vulns \<Rightarrow>
                    (case py_items vulns of
                       Inl e \<Rightarrow> res
                     | Inr entries \<Rightarrow> npm_vulnerabilities str entries res))))"

subsection \<open>ComplianceScanner.scan_project and generate_report\<close>

definition scan_one :: "world \<Rightarrow> string \<Rightarrow> scan_results \<Rightarrow> scan_results" where
  "scan_one w filepath res =
     (case scan_file (finditer w) filepath (read_text w filepath) res of
        (fr, res') \<Rightarrow>
          res'\<lparr>secrets_found := secrets_found res' @ secrets fr,
               payment_issues := payment_issues res' @ file_payment_issues fr,
               scanned_files := scanned_files res' + 1\<rparr>)"

definition scan_project :: "world \<Rightarrow> scan_results" where
  "scan_project w =
     (let files_to_scan = get_typescript_files (glob w);
          res1 = fold (scan_one w) files_to_scan init_results;
          res2 = scan_dependencies (read_text w) res1;
          res3 = run_npm_audit (py_str w) (npm_audit_output w) res2
      in res3\<lparr>scan_timestamp := Some (now w)\<rparr>)"

text \<open>\<open>generate_report\<close> writes the results as compliance-scan-results.json, prints them
  and ends the process; the model returns the document written and the exit status.\<close>

definition results_json :: "scan_results \<Rightarrow> json" where
  "results_json res =
     JObj [(''secrets_found'', JArr (secrets_found res)),
           (''payment_issues'', JArr (payment_issues res)),
           (''dependency_issues'', JArr (dependency_issues res)),
           (''high_severity_count'', JInt (high_severity_count res)),
           (''medium_severity_count'', JInt (medium_severity_count res)),
           (''low_severity_count'', JInt (low_severity_count res)),
           (''scan_timestamp'', (case scan_timestamp res of None \<Rightarrow> JNull | Some t \<Rightarrow> JStr t)),
           (''scanned_files'', JInt (scanned_files res))]"

definition generate_report :: "world \<Rightarrow> json \<times> int" where
  "generate_report w =
     (let results = scan_project w
      in (results_json results, if high_severity_count results > 0 then 1 else 0))"


section \<open>The report generator (generate-security-report.py)\<close>

text \<open>A step that may raise is followed by the next one only when it returned.\<close>

definition and_then :: "error + 'a \<Rightarrow> ('a \<Rightarrow> error + 'b) \<Rightarrow> error + 'b" where
  "and_then r f = (case r of Inl e \<Rightarrow> Inl e | Inr x \<Rightarrow> f x)"

subsection \<open>SecurityReportGenerator.__init__\<close>

record summary =
  total_issues :: int
  critical_count :: int
  high_count :: int
  medium_count :: int
  low_count :: int
  info_count :: int

datatype priority = CRITICAL | HIGH | MEDIUM | INFO

text \<open>The texts of \<open>message\<close> are those of the source without the leading pictograph.\<close>

record recommendation =
  priority :: priority
  message :: string
  action :: string

record report_data =
  report_timestamp :: string
  codeql_results :: "(string \<times> json) list"
  dependency_scan :: "(string \<times> json) list"
  eslint_security :: "(string \<times> json) list"
  semgrep_results :: "(string \<times> json) list"
  compliance_scan :: json
  summary :: summary
  recommendations :: "recommendation list"

definition init_report :: "string \<Rightarrow> report_data" where
  "init_report timestamp =
     \<lparr>report_timestamp = timestamp,
      codeql_results = [],
      dependency_scan = [],
      eslint_security = [],
      semgrep_results = [],
      compliance_scan = JObj [],
      summary = \<lparr>total_issues = 0, critical_count = 0, high_count = 0, medium_count = 0,
                 low_count = 0, info_count = 0\<rparr>,
      recommendations = []\<rparr>"

text \<open>
  \<open>find_artifact_file\<close> followed by \<open>load_json_file\<close> gives the document of an artifact,
  or nothing when no file matches or the file does not parse (the exception is caught
  and reported). The model takes that outcome, a \<open>json option\<close>, for each artifact.
\<close>

subsection \<open>SecurityReportGenerator.increment_severity_count\<close>

definition severity_map :: "(string \<times> string) list" where
  "severity_map =
     [(''critical'', ''critical_count''),
      (''high'', ''high_count''),
      (''medium'', ''medium_count''),
      (''moderate'', ''medium_count''),
      (''low'', ''low_count''),
      (''info'', ''info_count'')]"

text \<open>\<open>summary[count_key] += n\<close> for the keys of the summary.\<close>

definition summary_add :: "string \<Rightarrow> int \<Rightarrow> summary \<Rightarrow> summary" where
  "summary_add count_key n s =
     (if count_key = ''total_issues'' then s\<lparr>total_issues := total_issues s + n\<rparr>
      else if count_key = ''critical_count'' then s\<lparr>critical_count := critical_count s + n\<rparr>
      else if count_key = ''high_count'' then s\<lparr>high_count := high_count s + n\<rparr>
      else if count_key = ''medium_count'' then s\<lparr>medium_count := medium_count s + n\<rparr>
      else if count_key = ''low_count'' then s\<lparr>low_count := low_count s + n\<rparr>
      else if count_key = ''info_count'' then s\<lparr>info_count := info_count s + n\<rparr>
      else s)"

definition increment_severity_count :: "string \<Rightarrow> report_data \<Rightarrow> report_data" where
  "increment_severity_count severity st =
     (let count_key = (case map_of severity_map (lower severity) of
                         Some key \<Rightarrow> key | None \<Rightarrow> ''info_count'')
      in st\<lparr>summary := summary_add ''total_issues'' 1 (summary_add count_key 1 (summary st))\<rparr>)"

subsection \<open>SecurityReportGenerator.process_npm_audit_results\<close>

text \<open>\<open>x.lower()\<close>: only a string has the method.\<close>

fun py_lower :: "json \<Rightarrow> error + string" where
  "py_lower (JStr s) = Inr (lower s)"
| "py_lower _ = Inl AttributeError"

fun count_vulnerabilities :: "(string \<times> json) list \<Rightarrow> report_data \<Rightarrow> error + report_data" where
  "count_vulnerabilities [] st = Inr st"
| "count_vulnerabilities ((vuln_name, vuln_data) # rest) st =
     and_then (py_get vuln_data ''severity'' (JStr ''info'')) (\<lambda>sev.
     and_then (py_lower sev) (\<lambda>severity.
     count_vulnerabilities rest (increment_severity_count severity st)))"

definition process_npm_audit_results :: "json option \<Rightarrow> report_data \<Rightarrow> error + report_data" where
  "process_npm_audit_results artifact st =
     (case artifact of
        None \<Rightarrow> Inr st
      | Some data \<Rightarrow>
          if truthy data
          then (let st1 = st\<lparr>dependency_scan :=
                               AList.update ''npm_audit'' data (dependency_scan st)\<rparr>
                in and_then (py_in ''vulnerabilities'' data) (\<lambda>present.
                   if present
                   then and_then (py_getitem data ''vulnerabilities'') (\<lambda>vulns.
                        and_then (py_items vulns) (\<lambda>entries.
                        count_vulnerabilities entries st1))
                   else Inr st1))
          else Inr st)"

subsection \<open>SecurityReportGenerator.process_audit_ci_results\<close>

definition process_audit_ci_results :: "json option \<Rightarrow> report_data \<Rightarrow> error + report_data" where
  "process_audit_ci_results artifact st =
     (case artifact of
        None \<Rightarrow> Inr st
      | Some data \<Rightarrow>
          if truthy data
          then Inr (st\<lparr>dependency_scan := AList.update ''audit_ci'' data (dependency_scan st)\<rparr>)
          else Inr st)"

subsection \<open>SecurityReportGenerator.process_eslint_results\<close>

fun count_messages :: "json list \<Rightarrow> report_data \<Rightarrow> error + report_data" where
  "count_messages [] st = Inr st"
| "count_messages (msg # rest) st =
     and_then (py_get msg ''severity'' (JInt 1)) (\<lambda>severity.
     count_messages rest
       (if severity = JInt 2 then increment_severity_count ''high'' st
        else increment_severity_count ''medium'' st))"

fun count_file_results :: "json list \<Rightarrow> report_data \<Rightarrow> error + report_data" where
  "count_file_results [] st = Inr st"
| "count_file_results (file_result # rest) st =
     and_then (py_in ''messages'' file_result) (\<lambda>present.
     if present
     then and_then (py_getitem file_result ''messages'') (\<lambda>messages.
          and_then (py_iter messages) (\<lambda>msgs.
          and_then (count_messages msgs st) (count_file_results rest)))
     else count_file_results rest st)"

definition process_eslint_results :: "json option \<Rightarrow> report_data \<Rightarrow> error + report_data" where
  "process_eslint_results artifact st =
     (case artifact of
        None \<Rightarrow> Inr st
      | Some data \<Rightarrow>
          (case data of
             JArr file_results \<Rightarrow>
               if truthy data
               then count_file_results file_results
                      (st\<lparr>eslint_security :=
                            AList.update ''results'' data (eslint_security st)\<rparr>)
               else Inr st
           | _ \<Rightarrow> Inr st))"

subsection \<open>SecurityReportGenerator.process_compliance_results\<close>

text \<open>\<open>summary[count_key] += data.get(key, 0)\<close>\<close>

definition add_tally :: "string \<Rightarrow> json \<Rightarrow> string \<Rightarrow> report_data \<Rightarrow> error + report_data" where
  "add_tally count_key data key st =
     and_then (py_get data key (JInt 0)) (\<lambda>v.
     and_then (py_number v) (\<lambda>n.
     Inr (st\<lparr>summary := summary_add count_key n (summary st)\<rparr>)))"

definition process_compliance_results :: "json option \<Rightarrow> report_data \<Rightarrow> error + report_data" where
  "process_compliance_results artifact st =
     (case artifact of
        None \<Rightarrow> Inr st
      | Some data \<Rightarrow>
          if truthy data
          then and_then (add_tally ''critical_count'' data ''high_severity_count''
                           (st\<lparr>compliance_scan := data\<rparr>)) (\<lambda>st1.
               and_then (add_tally ''medium_count'' data ''medium_severity_count'' st1) (\<lambda>st2.
               add_tally ''low_count'' data ''low_severity_count'' st2))
          else Inr st)"

subsection \<open>SecurityReportGenerator.generate_recommendations\<close>

text \<open>The recommendation on a list of findings of the compliance scan:
  \<open>if compliance.get(key): recommendations.append({... len(compliance[key]) ...})\<close>\<close>

definition findings_recommendation ::
  "(json \<Rightarrow> string) \<Rightarrow> json \<Rightarrow> string \<Rightarrow> priority \<Rightarrow> string \<Rightarrow> string
     \<Rightarrow> recommendation list \<Rightarrow> error + recommendation list"
where
  "findings_recommendation str compliance key prio text act recs =
     and_then (py_get compliance key JNull) (\<lambda>found.
     if truthy found
     then and_then (py_getitem compliance key) (\<lambda>items.
          and_then (py_len items) (\<lambda>n.
          Inr (recs @ [\<lparr>priority = prio,
                        message = str (JInt (int n)) @ text,
                        action = act\<rparr>])))
     else Inr recs)"

definition generate_recommendations :: "(json \<Rightarrow> string) \<Rightarrow> report_data \<Rightarrow> error + report_data" where
  "generate_recommendations str st =
     (let recs0 = [];
          recs1 =
            (if critical_count (summary st) > 0
             then recs0 @ [\<lparr>priority = CRITICAL,
                             message = str (JInt (critical_count (summary st)))
                               @ '' critical security issues found. Immediate action required.'',
                             action = ''Review and fix all critical issues before deployment''\<rparr>]
             else recs0);
          recs2 =
            (if high_count (summary st) > 0
             then recs1 @ [\<lparr>priority = HIGH,
                             message = str (JInt (high_count (summary st)))
                               @ '' high severity issues found.'',
                             action = ''Address high severity issues in current sprint''\<rparr>]
             else recs1);
          compliance = compliance_scan st
      in and_then (findings_recommendation str compliance ''secrets_found'' CRITICAL
                     '' potential secrets found in code''
                     ''Remove all hardcoded secrets and use environment variables'' recs2)
           (\<lambda>recs3.
         and_then (findings_recommendation str compliance ''payment_issues'' HIGH
                     '' payment data issues found''
                     ''Review payment data handling for PCI compliance'' recs3)
           (\<lambda>recs4.
         (let dep_scan = dependency_scan st;
              recs5 =
                (if dep_scan \<noteq> []
                 then recs4 @ [\<lparr>priority = MEDIUM,
                                 message = ''Run 'npm audit fix' to automatically resolve dependency vulnerabilities'',
                                 action = ''Update vulnerable dependencies to secure versions''\<rparr>]
                 else recs4);
              recs6 =
                (if total_issues (summary st) = 0
                 then recs5 @ [\<lparr>priority = INFO,
                                 message = ''No security issues detected in this scan'',
                                 action = ''Continue following security best practices''\<rparr>]
                 else recs5)
          in Inr (st\<lparr>recommendations := recs6\<rparr>)))))"

subsection \<open>SecurityReportGenerator.generate_markdown_summary\<close>

text \<open>Of the summary in Markdown the model keeps what can raise: the three lengths put
  into the section on the compliance scan. The text itself is not modelled.\<close>

definition generate_markdown_summary :: "report_data \<Rightarrow> error + (nat \<times> nat \<times> nat) option" where
  "generate_markdown_summary st =
     (if truthy (compliance_scan st)
      then (let compliance = compliance_scan st
            in and_then (py_get compliance ''scanned_files'' (JInt 0)) (\<lambda>scanned.
               and_then (py_get compliance ''secrets_found'' (JArr [])) (\<lambda>s.
               and_then (py_len s) (\<lambda>ns.
               and_then (py_get compliance ''payment_issues'' (JArr [])) (\<lambda>p.
               and_then (py_len p) (\<lambda>np.
               and_then (py_get compliance ''dependency_issues'' (JArr [])) (\<lambda>d.
               and_then (py_len d) (\<lambda>nd.
               Inr (Some (ns, np, nd))))))))))
      else Inr None)"

subsection \<open>SecurityReportGenerator.generate_reports\<close>

definition priority_name :: "priority \<Rightarrow> string" where
  "priority_name p =
     (case p of CRITICAL \<Rightarrow> ''CRITICAL'' | HIGH \<Rightarrow> ''HIGH'' | MEDIUM \<Rightarrow> ''MEDIUM''
      | INFO \<Rightarrow> ''INFO'')"

text \<open>The document written as security-detailed-report.json.\<close>

definition report_json :: "report_data \<Rightarrow> json" where
  "report_json st =
     JObj [(''scan_timestamp'', JStr (report_timestamp st)),
           (''codeql_results'', JObj (codeql_results st)),
           (''dependency_scan'', JObj (dependency_scan st)),
           (''eslint_security'', JObj (eslint_security st)),
           (''semgrep_results'', JObj (semgrep_results st)),
           (''compliance_scan'', compliance_scan st),
           (''summary'',
              JObj [(''total_issues'', JInt (total_issues (summary st))),
                    (''critical_count'', JInt (critical_count (summary st))),
                    (''high_count'', JInt (high_count (summary st))),
                    (''medium_count'', JInt (medium_count (summary st))),
                    (''low_count'', JInt (low_count (summary st))),
                    (''info_count'', JInt (info_count (summary st)))]),
           (''recommendations'',
              JArr (map (\<lambda>r. JObj [(''priority'', JStr (priority_name (priority r))),
                                    (''message'', JStr (message r)),
                                    (''action'', JStr (action r))])
                      (recommendations st)))]"

text \<open>
  A run of the generator on the four artifacts (npm audit, audit-ci, ESLint, compliance
  scan). \<open>Inr\<close> is a run that reaches its end, with exit status 0; \<open>Inl\<close> is a run ended
  by an exception. The detailed report is written before the Markdown summary is made.
\<close>

definition generate_reports ::
  "(json \<Rightarrow> string) \<Rightarrow> string \<Rightarrow> json option \<Rightarrow> json option \<Rightarrow> json option \<Rightarrow> json option
     \<Rightarrow> error + report_data"
where
  "generate_reports str timestamp npm_audit audit_ci eslint compliance =
     and_then (process_npm_audit_results npm_audit (init_report timestamp)) (\<lambda>st1.
     and_then (process_audit_ci_results audit_ci st1) (\<lambda>st2.
     and_then (process_eslint_results eslint st2) (\<lambda>st3.
     and_then (process_compliance_results compliance st3) (\<lambda>st4.
     and_then (generate_recommendations str st4) (\<lambda>st5.
     and_then (generate_markdown_summary st5) (\<lambda>md.
     Inr st5))))))"


section \<open>The security gate (security-gate.py)\<close>

subsection \<open>SecurityGate.__init__\<close>

record gate_config =
  max_critical_issues :: int
  max_high_issues :: int
  max_secrets :: int
  max_payment_issues :: int
  warn_medium_issues :: int
  warn_dependency_issues :: int
  required_scans :: "string list"

definition the_gate_config :: gate_config where
  "the_gate_config =
     \<lparr>max_critical_issues = 0,
      max_high_issues = 0,
      max_secrets = 0,
      max_payment_issues = 0,
      warn_medium_issues = 5,
      warn_dependency_issues = 10,
      required_scans = [''compliance_scan'', ''dependency_scan'']\<rparr>"

text \<open>
  An entry of \<open>violations\<close>, \<open>warnings\<close> or \<open>passed_checks\<close> is a formatted line of text.
  The model keeps which line it is and the values put into it: the count found and,
  where the line shows it, the threshold.
\<close>

datatype gate_msg =
    ReportNotFound string
  | FailedToLoadReport
  | CriticalIssuesFound json int
  | CriticalIssuesPassed json
  | HighIssuesFound json int
  | HighIssuesPassed json
  | ComplianceResultsNotFound
  | SecretsFound nat int
  | SecretsPassed nat
  | PaymentIssuesFound nat int
  | PaymentIssuesPassed nat
  | DependencyResultsNotFound
  | ManyDependencyVulnerabilities nat int
  | DependencyVulnerabilitiesPassed nat
  | RequiredScanMissing string
  | RequiredScanCompleted string
  | ManyMediumIssues json int
  | MediumIssuesPassed json

record gate =
  violations :: "gate_msg list"
  warnings :: "gate_msg list"
  passed_checks :: "gate_msg list"

definition init_gate :: gate where
  "init_gate = \<lparr>violations = [], warnings = [], passed_checks = []\<rparr>"

definition add_violation :: "gate_msg \<Rightarrow> gate \<Rightarrow> gate" where
  "add_violation m g = g\<lparr>violations := violations g @ [m]\<rparr>"

definition add_warning :: "gate_msg \<Rightarrow> gate \<Rightarrow> gate" where
  "add_warning m g = g\<lparr>warnings := warnings g @ [m]\<rparr>"

definition add_passed :: "gate_msg \<Rightarrow> gate \<Rightarrow> gate" where
  "add_passed m g = g\<lparr>passed_checks := passed_checks g @ [m]\<rparr>"

subsection \<open>SecurityGate.load_security_report\<close>

text \<open>A file of the working directory either parses as JSON or does not.\<close>

datatype stored = Parsed json | Unparseable

definition report_file :: string where
  "report_file = ''security-detailed-report.json''"

definition load_security_report :: "(string \<Rightarrow> stored option) \<Rightarrow> gate \<Rightarrow> json \<times> gate" where
  "load_security_report fs g =
     (case fs report_file of
        None \<Rightarrow> (JObj [], add_violation (ReportNotFound report_file) g)
      | Some Unparseable \<Rightarrow> (JObj [], add_violation FailedToLoadReport g)
      | Some (Parsed report) \<Rightarrow> (report, g))"

subsection \<open>SecurityGate.check_critical_issues\<close>

definition check_critical_issues :: "json \<Rightarrow> gate \<Rightarrow> error + gate" where
  "check_critical_issues report g =
     and_then (py_get report ''summary'' (JObj [])) (\<lambda>summary.
     and_then (py_get summary ''critical_count'' (JInt 0)) (\<lambda>critical_count.
     and_then (py_get summary ''high_count'' (JInt 0)) (\<lambda>high_count.
     and_then (py_gt critical_count (max_critical_issues the_gate_config)) (\<lambda>too_many.
     (let g1 = (if too_many
                then add_violation
                       (CriticalIssuesFound critical_count (max_critical_issues the_gate_config)) g
                else add_passed (CriticalIssuesPassed critical_count) g)
      in and_then (py_gt high_count (max_high_issues the_gate_config)) (\<lambda>too_many.
         Inr (if too_many
              then add_violation
                     (HighIssuesFound high_count (max_high_issues the_gate_config)) g1
              else add_passed (HighIssuesPassed high_count) g1)))))))"

subsection \<open>SecurityGate.check_compliance_issues\<close>

definition check_compliance_issues :: "json \<Rightarrow> gate \<Rightarrow> error + gate" where
  "check_compliance_issues report g =
     and_then (py_get report ''compliance_scan'' (JObj [])) (\<lambda>compliance.
     if \<not> truthy compliance
     then Inr (add_violation ComplianceResultsNotFound g)
     else
       and_then (py_get compliance ''secrets_found'' (JArr [])) (\<lambda>found.
       and_then (py_len found) (\<lambda>secrets_count.
       (let g1 = (if int secrets_count > max_secrets the_gate_config
                  then add_violation
                         (SecretsFound secrets_count (max_secrets the_gate_config)) g
                  else add_passed (SecretsPassed secrets_count) g)
        in and_then (py_get compliance ''payment_issues'' (JArr [])) (\<lambda>issues.
           and_then (py_len issues) (\<lambda>payment_issues.
           Inr (if int payment_issues > max_payment_issues the_gate_config
                then add_violation
                       (PaymentIssuesFound payment_issues (max_payment_issues the_gate_config)) g1
                else add_passed (PaymentIssuesPassed payment_issues) g1)))))))"

subsection \<open>SecurityGate.check_dependency_issues\<close>

definition check_dependency_issues :: "json \<Rightarrow> gate \<Rightarrow> error + gate" where
  "check_dependency_issues report g =
     and_then (py_get report ''dependency_scan'' (JObj [])) (\<lambda>dependency_scan.
     if \<not> truthy dependency_scan
     then Inr (add_warning DependencyResultsNotFound g)
     else
       and_then (py_get dependency_scan ''npm_audit'' (JObj [])) (\<lambda>npm_audit.
       and_then (py_in ''vulnerabilities'' npm_audit) (\<lambda>present.
       and_then (if present
                 then and_then (py_getitem npm_audit ''vulnerabilities'') py_len
                 else Inr 0) (\<lambda>total_vulnerabilities.
       Inr (if int total_vulnerabilities > warn_dependency_issues the_gate_config
            then add_warning
                   (ManyDependencyVulnerabilities total_vulnerabilities
                      (warn_dependency_issues the_gate_config)) g
            else add_passed (DependencyVulnerabilitiesPassed total_vulnerabilities) g)))))"

subsection \<open>SecurityGate.check_required_scans\<close>

fun required_scans_loop :: "string list \<Rightarrow> json \<Rightarrow> gate \<Rightarrow> error + gate" where
  "required_scans_loop [] report g = Inr g"
| "required_scans_loop (scan_name # rest) report g =
     and_then (py_in scan_name report) (\<lambda>present.
     and_then (if \<not> present then Inr True
               else and_then (py_getitem report scan_name) (\<lambda>v. Inr (\<not> truthy v))) (\<lambda>missing.
     required_scans_loop rest report
       (if missing then add_violation (RequiredScanMissing scan_name) g
        else add_passed (RequiredScanCompleted scan_name) g)))"

definition check_required_scans :: "json \<Rightarrow> gate \<Rightarrow> error + gate" where
  "check_required_scans report g =
     required_scans_loop (required_scans the_gate_config) report g"

subsection \<open>SecurityGate.check_medium_issues\<close>

definition check_medium_issues :: "json \<Rightarrow> gate \<Rightarrow> error + gate" where
  "check_medium_issues report g =
     and_then (py_get report ''summary'' (JObj [])) (\<lambda>summary.
     and_then (py_get summary ''medium_count'' (JInt 0)) (\<lambda>medium_count.
     and_then (py_gt medium_count (warn_medium_issues the_gate_config)) (\<lambda>too_many.
     Inr (if too_many
          then add_warning
                 (ManyMediumIssues medium_count (warn_medium_issues the_gate_config)) g
          else add_passed (MediumIssuesPassed medium_count) g))))"

subsection \<open>SecurityGate.run_security_gate\<close>

text \<open>
  A run of the gate gives the exit status and the three lists as they stand when the
  process ends; \<open>Inl\<close> is a run ended by an exception in one of the checks.
\<close>

definition run_security_gate :: "(string \<Rightarrow> stored option) \<Rightarrow> error + int \<times> gate" where
  "run_security_gate fs =
     (case load_security_report fs init_gate of
        (report, g0) \<Rightarrow>
          if \<not> truthy report then Inr (1, g0)
          else
            and_then (check_critical_issues report g0) (\<lambda>g1.
            and_then (check_compliance_issues report g1) (\<lambda>g2.
            and_then (check_dependency_issues report g2) (\<lambda>g3.
            and_then (check_required_scans report g3) (\<lambda>g4.
            and_then (check_medium_issues report g4) (\<lambda>g5.
            Inr (if violations g5 \<noteq> [] then 1 else 0, g5)))))))"

subsection \<open>SecurityGateConfig.create_default_config and the entry point\<close>

definition config_file :: string where
  "config_file = ''.github/security-gate-config.json''"

definition default_config :: json where
  "default_config =
     JObj [(''description'', JStr ''Security Gate Configuration for PayMCP-TS''),
           (''version'', JStr ''1.0''),
           (''gates'',
              JObj [(''critical_issues'',
                       JObj [(''max_allowed'', JInt 0),
                             (''description'', JStr ''Maximum critical security issues allowed'')]),
                    (''high_issues'',
                       JObj [(''max_allowed'', JInt 0),
                             (''description'', JStr ''Maximum high security issues allowed'')]),
                    (''secrets'',
                       JObj [(''max_allowed'', JInt 0),
                             (''description'', JStr ''Maximum secrets in code allowed'')]),
                    (''payment_data'',
                       JObj [(''max_allowed'', JInt 0),
                             (''description'', JStr ''Maximum payment data issues allowed'')])]),
           (''warnings'',
              JObj [(''medium_issues'',
                       JObj [(''threshold'', JInt 5),
                             (''description'',
                                JStr ''Warn if medium issues exceed this threshold'')]),
                    (''dependency_vulnerabilities'',
                       JObj [(''threshold'', JInt 10),
                             (''description'',
                                JStr ''Warn if dependency vulnerabilities exceed this threshold'')])]),
           (''required_scans'', JArr [JStr ''compliance_scan'', JStr ''dependency_scan''])]"

definition create_default_config :: "(string \<Rightarrow> stored option) \<Rightarrow> (string \<Rightarrow> stored option)" where
  "create_default_config fs = fs(config_file \<mapsto> Parsed default_config)"

text \<open>The script: the files it leaves and the way the process ends.\<close>

definition security_gate_main ::
  "string list \<Rightarrow> (string \<Rightarrow> stored option) \<Rightarrow> (string \<Rightarrow> stored option) \<times> (error + int \<times> gate)"
where
  "security_gate_main argv fs =
     (if length argv > 1 \<and> argv ! 1 = ''--create-config''
      then (create_default_config fs, Inr (0, init_gate))
      else (fs, run_security_gate fs))"


section \<open>Notions used to state the properties\<close>

text \<open>All findings of a scan, and the findings whose severity counts as high.\<close>

definition findings :: "scan_results \<Rightarrow> json list" where
  "findings res = secrets_found res @ payment_issues res @ dependency_issues res"

definition is_high :: "json \<Rightarrow> bool" where
  "is_high f = (py_get f ''severity'' JNull = Inr (JStr ''high'')
                \<or> py_get f ''severity'' JNull = Inr (JStr ''critical''))"

definition high_rule :: "string \<Rightarrow> bool" where
  "high_rule t = (t = ''credit_card'' \<or> t = ''cvv'')"

text \<open>The number of newline characters at the offsets of a text below \<open>start\<close>.\<close>

definition newlines_before :: "string \<Rightarrow> nat \<Rightarrow> nat" where
  "newlines_before content start =
     length (filter (\<lambda>i. content ! i = CHR 0x0A) [0 ..< min start (length content)])"

definition tallied :: "scan_results \<Rightarrow> bool" where
  "tallied res =
     (high_severity_count res + medium_severity_count res + low_severity_count res
        = int (length (findings res))
      \<and> high_severity_count res = int (length (filter is_high (findings res))))"


text \<open>The sum of the five severity buckets of a summary.\<close>

definition bucket_sum :: "summary \<Rightarrow> int" where
  "bucket_sum s = critical_count s + high_count s + medium_count s + low_count s + info_count s"

text \<open>The state of a run that has merged external artifacts only: the total is the sum
  of the buckets, no bucket is negative and no compliance scan is recorded.\<close>

definition external_only :: "report_data \<Rightarrow> bool" where
  "external_only st =
     (total_issues (summary st) = bucket_sum (summary st)
      \<and> 0 \<le> critical_count (summary st) \<and> 0 \<le> high_count (summary st)
      \<and> 0 \<le> medium_count (summary st) \<and> 0 \<le> low_count (summary st)
      \<and> 0 \<le> info_count (summary st)
      \<and> compliance_scan st = JObj [])"

text \<open>\<open>compliance.get(key)\<close> is there and true.\<close>

definition has_findings :: "json \<Rightarrow> string \<Rightarrow> bool" where
  "has_findings c key = (case py_get c key JNull of Inl e \<Rightarrow> False | Inr found \<Rightarrow> truthy found)"

text \<open>The recommendation on the findings under \<open>key\<close> can be made without raising.\<close>

definition findings_ok :: "json \<Rightarrow> string \<Rightarrow> bool" where
  "findings_ok c key =
     (case py_get c key JNull of
        Inl e \<Rightarrow> False
      | Inr found \<Rightarrow>
          \<not> truthy found
          \<or> (case py_getitem c key of Inl e \<Rightarrow> False | Inr items \<Rightarrow> \<not> isl (py_len items)))"

text \<open>An artifact was found, parsed and is a true value: the test \<open>if data:\<close> of the
  \<open>process_*\<close> methods lets it through.\<close>

definition loaded :: "json option \<Rightarrow> bool" where
  "loaded a = (case a of None \<Rightarrow> False | Some data \<Rightarrow> truthy data)"

text \<open>The priorities of the recommendations of a run, and its summary.\<close>

definition run_priorities :: "error + report_data \<Rightarrow> priority list" where
  "run_priorities r = (case r of Inl e \<Rightarrow> [] | Inr st \<Rightarrow> map priority (recommendations st))"

definition run_summary :: "error + report_data \<Rightarrow> summary option" where
  "run_summary r = (case r of Inl e \<Rightarrow> None | Inr st \<Rightarrow> Some (summary st))"

text \<open>A rendering for runs that render no value.\<close>

definition blank_str :: "json \<Rightarrow> string" where
  "blank_str j = []"

text \<open>The results the scanner writes for one scanned file with one match of the rule
  \<open>api_key\<close> on its first line, and the output of \<open>npm audit\<close> for a project without
  vulnerabilities.\<close>

definition one_secret_scan :: json where
  "one_secret_scan =
     JObj [(''secrets_found'',
              JArr [JObj [(''type'', JStr ''api_key''),
                          (''file'', JStr ''src/config.ts''),
                          (''line'', JInt 1),
                          (''severity'', JStr ''high''),
                          (''message'', JStr ''Potential api_key found'')]]),
           (''payment_issues'', JArr []),
           (''dependency_issues'', JArr []),
           (''high_severity_count'', JInt 1),
           (''medium_severity_count'', JInt 0),
           (''low_severity_count'', JInt 0),
           (''scan_timestamp'', JStr ''2025-01-01T00:00:00''),
           (''scanned_files'', JInt 1)]"

definition clean_npm_audit :: json where
  "clean_npm_audit = JObj [(''auditReportVersion'', JInt 2), (''vulnerabilities'', JObj [])]"


text \<open>The report of a run on that output of \<open>npm audit\<close> alone.\<close>

definition clean_npm_report :: report_data where
  "clean_npm_report =
     (init_report [])
       \<lparr>dependency_scan := [(''npm_audit'', clean_npm_audit)],
        recommendations :=
          [\<lparr>priority = MEDIUM,
            message = ''Run 'npm audit fix' to automatically resolve dependency vulnerabilities'',
            action = ''Update vulnerable dependencies to secure versions''\<rparr>,
           \<lparr>priority = INFO,
            message = ''No security issues detected in this scan'',
            action = ''Continue following security best practices''\<rparr>]\<rparr>"













text \<open>A working directory that holds the report and nothing else, and a policy file
  with other thresholds than those of the gate.\<close>

definition only_report :: "json \<Rightarrow> string \<Rightarrow> stored option" where
  "only_report r path = (if path = report_file then Some (Parsed r) else None)"

definition lax_config :: json where
  "lax_config =
     JObj [(''max_critical_issues'', JInt 100), (''max_high_issues'', JInt 100),
           (''max_secrets'', JInt 100), (''max_payment_issues'', JInt 100),
           (''warn_medium_issues'', JInt 100), (''warn_dependency_issues'', JInt 100),
           (''required_scans'', JArr [])]"


section \<open>Properties of the compliance scanner\<close>

lemma fold_secret_match:
  "fold (secret_match t p c) xs (fr, res) =
     (fr\<lparr>secrets := secrets fr @ map (secret_info t p c) xs\<rparr>,
      res\<lparr>high_severity_count := high_severity_count res + int (length xs)\<rparr>)"
  by (induction xs arbitrary: fr res) (simp_all add: secret_match_def)

lemma fold_secret_rules:
  "fold (\<lambda>t. fold (secret_match t p c) (fi t c)) ts (fr, res) =
     (fr\<lparr>secrets := secrets fr @ concat (map (\<lambda>t. map (secret_info t p c) (fi t c)) ts)\<rparr>,
      res\<lparr>high_severity_count :=
            high_severity_count res + (\<Sum>t\<leftarrow>ts. int (length (fi t c)))\<rparr>)"
  by (induction ts arbitrary: fr res) (simp_all add: fold_secret_match)

lemma payment_severity:
  "py_get (payment_info t p c s) ''severity'' JNull =
     Inr (JStr (if high_rule t then ''high'' else ''medium''))"
  by (auto simp add: payment_info_def high_rule_def)

lemma payment_match_eq:
  "payment_match t p c s (fr, res) =
     (fr\<lparr>file_payment_issues := file_payment_issues fr @ [payment_info t p c s]\<rparr>,
      if high_rule t then res\<lparr>high_severity_count := high_severity_count res + 1\<rparr>
      else res\<lparr>medium_severity_count := medium_severity_count res + 1\<rparr>)"
  by (simp add: payment_match_def payment_severity Let_def)

lemma fold_payment_match:
  "fold (payment_match t p c) xs (fr, res) =
     (fr\<lparr>file_payment_issues := file_payment_issues fr @ map (payment_info t p c) xs\<rparr>,
      if high_rule t
      then res\<lparr>high_severity_count := high_severity_count res + int (length xs)\<rparr>
      else res\<lparr>medium_severity_count := medium_severity_count res + int (length xs)\<rparr>)"
  by (induction xs arbitrary: fr res) (simp_all add: payment_match_eq)

lemma fold_payment_rules:
  "fold (\<lambda>t. fold (payment_match t p c) (fi t c)) ts (fr, res) =
     (fr\<lparr>file_payment_issues :=
            file_payment_issues fr @ concat (map (\<lambda>t. map (payment_info t p c) (fi t c)) ts)\<rparr>,
      res\<lparr>high_severity_count :=
            high_severity_count res + (\<Sum>t\<leftarrow>filter high_rule ts. int (length (fi t c))),
          medium_severity_count :=
            medium_severity_count res
              + (\<Sum>t\<leftarrow>filter (\<lambda>t. \<not> high_rule t) ts. int (length (fi t c)))\<rparr>)"
  by (induction ts arbitrary: fr res) (simp_all add: fold_payment_match)

lemma scan_file_Some:
  "scan_file fi p (Some c) res =
     (\<lparr>secrets = concat (map (\<lambda>t. map (secret_info t p c) (fi t c)) secret_patterns),
       file_payment_issues = concat (map (\<lambda>t. map (payment_info t p c) (fi t c)) payment_patterns),
       file_path = p\<rparr>,
      res\<lparr>high_severity_count :=
            high_severity_count res + (\<Sum>t\<leftarrow>secret_patterns. int (length (fi t c)))
              + (\<Sum>t\<leftarrow>filter high_rule payment_patterns. int (length (fi t c))),
          medium_severity_count :=
            medium_severity_count res
              + (\<Sum>t\<leftarrow>filter (\<lambda>t. \<not> high_rule t) payment_patterns. int (length (fi t c)))\<rparr>)"
  by (simp add: scan_file_def fold_secret_rules fold_payment_rules)

lemma scan_file_None:
  "scan_file fi p None res = (\<lparr>secrets = [], file_payment_issues = [], file_path = p\<rparr>, res)"
  by (simp add: scan_file_def)

lemma count_take:
  "count_list (take n xs) c = length (filter (\<lambda>i. xs ! i = c) [0 ..< min n (length xs)])"
proof (induction n)
  case 0
  show ?case by simp
next
  case (Suc n)
  show ?case
  proof (cases "n < length xs")
    case True
    then have "take (Suc n) xs = take n xs @ [xs ! n]"
      by (simp add: take_Suc_conv_app_nth)
    moreover from True have "min (Suc n) (length xs) = Suc (min n (length xs))" by simp
    ultimately show ?thesis using Suc True by (simp add: min_def)
  next
    case False
    then show ?thesis using Suc by simp
  qed
qed

lemma sum_list_split:
  "(\<Sum>t\<leftarrow>ts. (f t :: int)) = (\<Sum>t\<leftarrow>filter P ts. f t) + (\<Sum>t\<leftarrow>filter (\<lambda>t. \<not> P t) ts. f t)"
  by (induction ts) simp_all

lemma length_concat_map:
  "int (length (concat (map (\<lambda>t. map (f t) (g t)) ts))) = (\<Sum>t\<leftarrow>ts. int (length (g t)))"
  by (induction ts) simp_all

lemma is_high_secret: "is_high (secret_info t p c s)"
  by (simp add: is_high_def secret_info_def)

lemma is_high_payment: "is_high (payment_info t p c s) = high_rule t"
  by (simp add: is_high_def payment_severity)

lemma filter_high_secrets:
  "filter is_high (concat (map (\<lambda>t. map (secret_info t p c) (g t)) ts))
     = concat (map (\<lambda>t. map (secret_info t p c) (g t)) ts)"
  by (induction ts) (simp_all add: is_high_secret)

lemma filter_high_payments:
  "int (length (filter is_high (concat (map (\<lambda>t. map (payment_info t p c) (g t)) ts))))
     = (\<Sum>t\<leftarrow>filter high_rule ts. int (length (g t)))"
  by (induction ts) (simp_all add: is_high_payment)

lemma tallied_init: "tallied init_results"
  by (simp add: tallied_def init_results_def findings_def)

lemma tallied_scan_one: "tallied res \<Longrightarrow> tallied (scan_one w p res)"
proof (cases "read_text w p")
  case None
  assume "tallied res"
  with None show ?thesis
    by (simp add: scan_one_def scan_file_None tallied_def findings_def)
next
  case (Some c)
  assume t: "tallied res"
  let ?f = "\<lambda>t. int (length (finditer w t c))"
  have split: "(\<Sum>t\<leftarrow>payment_patterns. ?f t)
      = (\<Sum>t\<leftarrow>filter high_rule payment_patterns. ?f t)
        + (\<Sum>t\<leftarrow>filter (\<lambda>t. \<not> high_rule t) payment_patterns. ?f t)"
    by (rule sum_list_split)
  from t Some show ?thesis
    by (simp add: scan_one_def scan_file_Some tallied_def findings_def
        length_concat_map filter_high_secrets filter_high_payments split)
qed

lemma tallied_fold_scan_one: "tallied res \<Longrightarrow> tallied (fold (scan_one w) ps res)"
  by (induction ps arbitrary: res) (simp_all add: tallied_scan_one)

lemma not_high_dependency: "\<not> is_high (dependency_issue n f)"
  by (simp add: is_high_def dependency_issue_def)

lemma tallied_fold_packages:
  "tallied res \<Longrightarrow>
   tallied (fold (\<lambda>(package_name, pattern) res.
             if re_search pattern content
             then res\<lparr>dependency_issues :=
                        dependency_issues res @ [dependency_issue package_name package_file],
                      medium_severity_count := medium_severity_count res + 1\<rparr>
             else res) pkgs res)"
proof (induction pkgs arbitrary: res)
  case Nil
  then show ?case by simp
next
  case (Cons a pkgs)
  obtain n pat where a: "a = (n, pat)" by (cases a)
  show ?case
  proof (cases "re_search pat content")
    case True
    have "tallied (res\<lparr>dependency_issues := dependency_issues res @ [dependency_issue n package_file],
                      medium_severity_count := medium_severity_count res + 1\<rparr>)"
      using Cons.prems by (simp add: tallied_def findings_def not_high_dependency)
    from Cons.IH [OF this] True a show ?thesis by simp
  next
    case False
    with Cons a show ?thesis by simp
  qed
qed

lemma tallied_scan_manifest: "tallied res \<Longrightarrow> tallied (scan_manifest f content res)"
  unfolding scan_manifest_def by (rule tallied_fold_packages)

lemma tallied_fold_manifests:
  "tallied res \<Longrightarrow>
   tallied (fold (\<lambda>package_file res.
             case rd package_file of
               None \<Rightarrow> res
             | Some content \<Rightarrow> scan_manifest package_file content res) fs res)"
  by (induction fs arbitrary: res) (simp_all add: tallied_scan_manifest split: option.splits)

lemma tallied_scan_dependencies: "tallied res \<Longrightarrow> tallied (scan_dependencies rd res)"
  unfolding scan_dependencies_def by (rule tallied_fold_manifests)

lemma tallied_npm_vulnerabilities:
  "tallied res \<Longrightarrow> tallied (npm_vulnerabilities str entries res)"
proof (induction entries arbitrary: res)
  case Nil
  then show ?case by simp
next
  case (Cons a entries)
  obtain n d where a: "a = (n, d)" by (cases a)
  show ?case
  proof (cases d)
    case (JObj kvs)
    show ?thesis
      unfolding a JObj
      apply (simp add: Let_def)
      apply (intro conjI impI Cons.IH)
      using Cons.prems
      apply (simp_all add: tallied_def findings_def is_high_def)
      done
  qed (use Cons.prems a in simp_all)
qed

lemma tallied_run_npm_audit: "tallied res \<Longrightarrow> tallied (run_npm_audit str out res)"
  by (simp add: run_npm_audit_def tallied_npm_vulnerabilities
      split: option.splits sum.splits bool.splits)

lemma tallied_scan_project: "tallied (scan_project w)"
proof -
  have "tallied (run_npm_audit (py_str w) (npm_audit_output w)
          (scan_dependencies (read_text w)
             (fold (scan_one w) (get_typescript_files (glob w)) init_results)))"
    by (intro tallied_run_npm_audit tallied_scan_dependencies tallied_fold_scan_one tallied_init)
  then show ?thesis
    by (simp add: scan_project_def Let_def tallied_def findings_def)
qed


subsection \<open>The claims on the scanner\<close>

text \<open>
  Claim C5. In the results of a complete scan pass the three severity tallies add up
  to the number of findings in \<open>secrets_found\<close>, \<open>payment_issues\<close> and
  \<open>dependency_issues\<close> together, whatever the files, the manifests and the output of
  \<open>npm audit\<close> are.
\<close>

theorem scan_project_tallies_count_findings:
  "high_severity_count (scan_project w) + medium_severity_count (scan_project w)
     + low_severity_count (scan_project w)
   = int (length (secrets_found (scan_project w)) + length (payment_issues (scan_project w))
          + length (dependency_issues (scan_project w)))"
  using tallied_scan_project [of w] by (simp add: tallied_def findings_def)

text \<open>
  Claim C6. The findings of a file are, rule by rule and match by match, in the order
  of the matches; the finding of a match of rule \<open>t\<close> at offset \<open>s\<close> records the rule and
  the line one plus the number of newline characters of the text before offset \<open>s\<close>.
  This holds for the secret rules and for the payment rules.
\<close>

theorem scan_file_line_numbers:
  "map (\<lambda>f. (py_get f ''type'' JNull, py_get f ''line'' JNull))
       (secrets (fst (scan_file fi p (Some c) res)))
     = concat (map (\<lambda>t. map (\<lambda>s. (Inr (JStr t), Inr (JInt (int (newlines_before c s) + 1))))
                            (fi t c))
                 secret_patterns)
   \<and> map (\<lambda>f. (py_get f ''type'' JNull, py_get f ''line'' JNull))
       (file_payment_issues (fst (scan_file fi p (Some c) res)))
     = concat (map (\<lambda>t. map (\<lambda>s. (Inr (JStr t), Inr (JInt (int (newlines_before c s) + 1))))
                            (fi t c))
                 payment_patterns)"
  by (simp add: scan_file_Some map_concat o_def secret_info_def payment_info_def line_of_def
      count_take newlines_before_def)

text \<open>
  Claim C7. The payment findings of a file are, rule by rule and match by match, of
  severity high for the rules \<open>credit_card\<close> and \<open>cvv\<close> and of severity medium for the
  other payment rules. The scan of the file adds to the high tally the matches of the
  secret rules, of \<open>credit_card\<close> and of \<open>cvv\<close>, and to the medium tally the matches of
  \<open>expiry\<close> and of \<open>payment_logging\<close>.
\<close>

theorem scan_file_payment_severity:
  "map (\<lambda>f. (py_get f ''type'' JNull, py_get f ''severity'' JNull))
       (file_payment_issues (fst (scan_file fi p (Some c) res)))
     = concat (map (\<lambda>t. map (\<lambda>s. (Inr (JStr t),
                                     Inr (JStr (if t = ''credit_card'' \<or> t = ''cvv''
                                                then ''high'' else ''medium''))))
                            (fi t c))
                 payment_patterns)
   \<and> high_severity_count (snd (scan_file fi p (Some c) res))
     = high_severity_count res + (\<Sum>t\<leftarrow>secret_patterns. int (length (fi t c)))
       + int (length (fi ''credit_card'' c)) + int (length (fi ''cvv'' c))
   \<and> medium_severity_count (snd (scan_file fi p (Some c) res))
     = medium_severity_count res
       + int (length (fi ''expiry'' c)) + int (length (fi ''payment_logging'' c))
   \<and> low_severity_count (snd (scan_file fi p (Some c) res)) = low_severity_count res"
proof -
  have sev: "\<And>t s. py_get (payment_info t p c s) ''severity'' JNull
      = Inr (JStr (if t = ''credit_card'' \<or> t = ''cvv'' then ''high'' else ''medium''))"
    by (simp add: payment_severity high_rule_def)
  have ptype: "\<And>t s. py_get (payment_info t p c s) ''type'' JNull = Inr (JStr t)"
    by (simp add: payment_info_def)
  have hi: "filter high_rule payment_patterns = [''credit_card'', ''cvv'']"
    by (simp add: payment_patterns_def high_rule_def)
  have lo: "filter (\<lambda>t. \<not> high_rule t) payment_patterns = [''expiry'', ''payment_logging'']"
    by (simp add: payment_patterns_def high_rule_def)
  show ?thesis
    by (simp add: scan_file_Some map_concat o_def sev ptype hi lo)
qed

text \<open>
  Claim C10. The report step of the scanner ends with status 1 exactly when the high
  tally of the scan is above zero and with status 0 otherwise; the high tally is the
  number of findings of severity high or critical, so a scan whose findings are all of
  another severity ends with status 0.
\<close>

theorem generate_report_exit_status:
  "(snd (generate_report w) = 1) = (0 < high_severity_count (scan_project w))
   \<and> (snd (generate_report w) = 0) = (high_severity_count (scan_project w) = 0)
   \<and> fst (generate_report w) = results_json (scan_project w)
   \<and> high_severity_count (scan_project w)
       = int (length (filter is_high (findings (scan_project w))))"
proof -
  have h: "high_severity_count (scan_project w)
      = int (length (filter is_high (findings (scan_project w))))"
    using tallied_scan_project [of w] by (simp add: tallied_def)
  then have "0 \<le> high_severity_count (scan_project w)" by simp
  with h show ?thesis by (auto simp add: generate_report_def Let_def)
qed


section \<open>Properties of the report generator\<close>

lemma and_then_Inr [simp]: "and_then (Inr x) f = f x"
  by (simp add: and_then_def)

lemma and_then_Inl [simp]: "and_then (Inl e) f = Inl e"
  by (simp add: and_then_def)

lemma and_then_eq_Inr:
  "(and_then r f = Inr y) = (\<exists>x. r = Inr x \<and> f x = Inr y)"
  by (cases r) simp_all

lemma severity_key:
  "(case map_of severity_map x of Some key \<Rightarrow> key | None \<Rightarrow> ''info_count'')
     \<in> {''critical_count'', ''high_count'', ''medium_count'', ''low_count'', ''info_count''}"
  by (simp add: severity_map_def)

lemma external_only_increment:
  "external_only st \<Longrightarrow> external_only (increment_severity_count severity st)"
  using severity_key [of "lower severity"]
  by (auto simp add: external_only_def increment_severity_count_def Let_def summary_add_def
      bucket_sum_def)

lemma external_only_count_vulnerabilities:
  "external_only st \<Longrightarrow> count_vulnerabilities es st = Inr st' \<Longrightarrow> external_only st'"
proof (induction es arbitrary: st)
  case Nil
  then show ?case by simp
next
  case (Cons a es)
  obtain n d where a: "a = (n, d)" by (cases a)
  from Cons.prems(2) obtain sev severity where
    "count_vulnerabilities es (increment_severity_count severity st) = Inr st'"
    by (auto simp add: a and_then_eq_Inr)
  with Cons.IH external_only_increment [OF Cons.prems(1)] show ?case by blast
qed

lemma external_only_npm:
  "external_only st \<Longrightarrow> process_npm_audit_results a st = Inr st' \<Longrightarrow> external_only st'"
proof -
  assume e: "external_only st" and r: "process_npm_audit_results a st = Inr st'"
  have e1: "\<And>d. external_only (st\<lparr>dependency_scan := d\<rparr>)"
    using e by (simp add: external_only_def)
  from r e show ?thesis
    by (auto simp add: process_npm_audit_results_def Let_def and_then_eq_Inr e1
        split: option.splits if_splits
        dest: external_only_count_vulnerabilities [OF e1])
qed

lemma external_only_audit_ci:
  "external_only st \<Longrightarrow> process_audit_ci_results a st = Inr st' \<Longrightarrow> external_only st'"
  by (auto simp add: process_audit_ci_results_def external_only_def
      split: option.splits if_splits)

lemma external_only_count_messages:
  "external_only st \<Longrightarrow> count_messages ms st = Inr st' \<Longrightarrow> external_only st'"
proof (induction ms arbitrary: st)
  case Nil
  then show ?case by simp
next
  case (Cons m ms)
  from Cons.prems(2) obtain severity where
    "count_messages ms (if severity = JInt 2 then increment_severity_count ''high'' st
                        else increment_severity_count ''medium'' st) = Inr st'"
    by (auto simp add: and_then_eq_Inr)
  moreover have "external_only (if severity = JInt 2 then increment_severity_count ''high'' st
                        else increment_severity_count ''medium'' st)"
    using Cons.prems(1) by (simp add: external_only_increment)
  ultimately show ?case using Cons.IH by blast
qed

lemma external_only_count_file_results:
  "external_only st \<Longrightarrow> count_file_results fs st = Inr st' \<Longrightarrow> external_only st'"
proof (induction fs arbitrary: st)
  case Nil
  then show ?case by simp
next
  case (Cons f fs)
  from Cons.prems(2) show ?case
    by (auto simp add: and_then_eq_Inr split: if_splits
        intro: Cons.IH Cons.prems(1) external_only_count_messages [OF Cons.prems(1)])
qed

lemma external_only_eslint:
  "external_only st \<Longrightarrow> process_eslint_results a st = Inr st' \<Longrightarrow> external_only st'"
proof -
  assume e: "external_only st" and r: "process_eslint_results a st = Inr st'"
  have e1: "\<And>d. external_only (st\<lparr>eslint_security := d\<rparr>)"
    using e by (simp add: external_only_def)
  from r e show ?thesis
    by (auto simp add: process_eslint_results_def
        split: option.splits if_splits json.splits
        dest: external_only_count_file_results [OF e1])
qed

lemma external_only_init: "external_only (init_report ts)"
  by (simp add: external_only_def init_report_def bucket_sum_def)

lemma findings_recommendation_priorities:
  "findings_recommendation str c key prio text act recs = Inr recs' \<Longrightarrow>
     map priority recs' = map priority recs @ (if has_findings c key then [prio] else [])"
  by (auto simp add: findings_recommendation_def and_then_eq_Inr has_findings_def
      split: if_splits)

lemma has_findings_empty: "\<not> has_findings (JObj []) key"
  by (simp add: has_findings_def)

lemma generate_recommendations_fields:
  "generate_recommendations str st = Inr st' \<Longrightarrow>
     summary st' = summary st \<and> compliance_scan st' = compliance_scan st
     \<and> dependency_scan st' = dependency_scan st"
  by (auto simp add: generate_recommendations_def Let_def and_then_eq_Inr)

lemma generate_recommendations_priorities:
  assumes "generate_recommendations str st = Inr st'"
  shows "map priority (recommendations st') =
            (if critical_count (summary st) > 0 then [CRITICAL] else [])
            @ (if high_count (summary st) > 0 then [HIGH] else [])
            @ (if has_findings (compliance_scan st) ''secrets_found'' then [CRITICAL] else [])
            @ (if has_findings (compliance_scan st) ''payment_issues'' then [HIGH] else [])
            @ (if dependency_scan st \<noteq> [] then [MEDIUM] else [])
            @ (if total_issues (summary st) = 0 then [INFO] else [])"
  using assms
  by (auto simp add: generate_recommendations_def Let_def and_then_eq_Inr
      dest!: findings_recommendation_priorities)

lemma generate_reports_steps:
  assumes "generate_reports str ts npm aci esl cpl = Inr st"
  shows "\<exists>st1 st2 st3 st4.
           process_npm_audit_results npm (init_report ts) = Inr st1
         \<and> process_audit_ci_results aci st1 = Inr st2
         \<and> process_eslint_results esl st2 = Inr st3
         \<and> process_compliance_results cpl st3 = Inr st4
         \<and> generate_recommendations str st4 = Inr st"
  using assms by (auto simp add: generate_reports_def and_then_eq_Inr)

lemma info_iff_total:
  assumes "generate_reports str ts npm aci esl cpl = Inr st"
  shows "(INFO \<in> set (map priority (recommendations st))) = (total_issues (summary st) = 0)"
proof -
  from generate_reports_steps [OF assms] obtain st4 where
    g: "generate_recommendations str st4 = Inr st" by blast
  from generate_recommendations_priorities [OF g] generate_recommendations_fields [OF g]
  show ?thesis by (auto split: if_splits)
qed

lemma compliance_scan_increment [simp]:
  "compliance_scan (increment_severity_count severity st) = compliance_scan st"
  by (simp add: increment_severity_count_def Let_def)

lemma count_vulnerabilities_any_state:
  "count_vulnerabilities es st = Inr s1 \<Longrightarrow>
     compliance_scan s1 = compliance_scan st \<and> (\<exists>s2. count_vulnerabilities es st' = Inr s2)"
proof (induction es arbitrary: st st')
  case Nil
  then show ?case by simp
next
  case (Cons a es)
  obtain n d where a: "a = (n, d)" by (cases a)
  from Cons.prems obtain sev severity where
    g: "py_get d ''severity'' (JStr ''info'') = Inr sev" "py_lower sev = Inr severity"
    and r: "count_vulnerabilities es (increment_severity_count severity st) = Inr s1"
    by (auto simp add: a and_then_eq_Inr)
  from Cons.IH [OF r, of "increment_severity_count severity st'"] g show ?case
    by (simp add: a)
qed

lemma process_npm_any_state:
  assumes "process_npm_audit_results a st = Inr s1"
  shows "compliance_scan s1 = compliance_scan st
     \<and> (\<exists>s2. process_npm_audit_results a st' = Inr s2)"
proof (cases "\<exists>data. a = Some data \<and> truthy data")
  case False
  with assms show ?thesis
    by (auto simp add: process_npm_audit_results_def split: option.splits)
next
  case True
  then obtain data where d: "a = Some data" "truthy data" by blast
  let ?u = "\<lambda>s. s\<lparr>dependency_scan := AList.update ''npm_audit'' data (dependency_scan s)\<rparr>"
  have unfold: "\<And>s. process_npm_audit_results a s =
      and_then (py_in ''vulnerabilities'' data) (\<lambda>present.
        if present
        then and_then (py_getitem data ''vulnerabilities'') (\<lambda>vulns.
             and_then (py_items vulns) (\<lambda>entries. count_vulnerabilities entries (?u s)))
        else Inr (?u s))"
    using d by (simp add: process_npm_audit_results_def Let_def)
  from assms obtain present where p: "py_in ''vulnerabilities'' data = Inr present"
    by (auto simp add: unfold and_then_eq_Inr)
  show ?thesis
  proof (cases present)
    case False
    with assms p show ?thesis by (auto simp add: unfold)
  next
    case True
    with assms p obtain vulns entries where
      g: "py_getitem data ''vulnerabilities'' = Inr vulns" "py_items vulns = Inr entries"
      and c: "count_vulnerabilities entries (?u st) = Inr s1"
      by (auto simp add: unfold and_then_eq_Inr)
    from count_vulnerabilities_any_state [OF c, of "?u st'"] p True g show ?thesis
      by (simp add: unfold)
  qed
qed

lemma process_audit_ci_total:
  "\<exists>s1. process_audit_ci_results a st = Inr s1 \<and> compliance_scan s1 = compliance_scan st"
  by (simp add: process_audit_ci_results_def split: option.splits)

lemma count_messages_any_state:
  "count_messages ms st = Inr s1 \<Longrightarrow>
     compliance_scan s1 = compliance_scan st \<and> (\<exists>s2. count_messages ms st' = Inr s2)"
proof (induction ms arbitrary: st st')
  case Nil
  then show ?case by simp
next
  case (Cons m ms)
  from Cons.prems obtain severity where
    g: "py_get m ''severity'' (JInt 1) = Inr severity"
    and r: "count_messages ms (if severity = JInt 2 then increment_severity_count ''high'' st
                        else increment_severity_count ''medium'' st) = Inr s1"
    by (auto simp add: and_then_eq_Inr)
  from Cons.IH [OF r, of "if severity = JInt 2 then increment_severity_count ''high'' st'
                        else increment_severity_count ''medium'' st'"] g
  show ?case by simp
qed

lemma count_file_results_any_state:
  "count_file_results fs st = Inr s1 \<Longrightarrow>
     compliance_scan s1 = compliance_scan st \<and> (\<exists>s2. count_file_results fs st' = Inr s2)"
proof (induction fs arbitrary: st st')
  case Nil
  then show ?case by simp
next
  case (Cons f fs)
  from Cons.prems obtain present where p: "py_in ''messages'' f = Inr present"
    by (auto simp add: and_then_eq_Inr)
  show ?case
  proof (cases present)
    case False
    with Cons.prems p have "count_file_results fs st = Inr s1" by simp
    from Cons.IH [OF this, of st'] p False show ?thesis by simp
  next
    case True
    with Cons.prems p obtain messages msgs sm where
      g: "py_getitem f ''messages'' = Inr messages" "py_iter messages = Inr msgs"
      and m: "count_messages msgs st = Inr sm"
      and r: "count_file_results fs sm = Inr s1"
      by (auto simp add: and_then_eq_Inr)
    from count_messages_any_state [OF m, of st'] obtain sm' where
      m': "compliance_scan sm = compliance_scan st" "count_messages msgs st' = Inr sm'" by blast
    from Cons.IH [OF r, of sm'] p True g m' show ?thesis by simp
  qed
qed

lemma process_eslint_any_state:
  assumes "process_eslint_results a st = Inr s1"
  shows "compliance_scan s1 = compliance_scan st
     \<and> (\<exists>s2. process_eslint_results a st' = Inr s2)"
proof (cases "\<exists>x xs. a = Some (JArr (x # xs))")
  case False
  have "\<And>s. process_eslint_results a s = Inr s"
  proof (cases a)
    case None
    fix s show "process_eslint_results a s = Inr s"
      using None by (simp add: process_eslint_results_def)
  next
    case (Some data)
    fix s show "process_eslint_results a s = Inr s"
    proof (cases data)
      case (JArr xs)
      with False Some have "xs = []" by (cases xs) simp_all
      with Some JArr show ?thesis by (simp add: process_eslint_results_def)
    qed (simp_all add: Some process_eslint_results_def)
  qed
  with assms show ?thesis by simp
next
  case True
  then obtain x xs where d: "a = Some (JArr (x # xs))" by blast
  let ?u = "\<lambda>s. s\<lparr>eslint_security :=
                      AList.update ''results'' (JArr (x # xs)) (eslint_security s)\<rparr>"
  have unfold: "\<And>s. process_eslint_results a s = count_file_results (x # xs) (?u s)"
    using d by (simp add: process_eslint_results_def)
  from assms have c: "count_file_results (x # xs) (?u st) = Inr s1"
    by (simp only: unfold)
  from count_file_results_any_state [OF c, of "?u st'"] show ?thesis
    by (simp add: unfold)
qed

lemma add_tally_any_state:
  "add_tally k data key st = Inr s1 \<Longrightarrow>
     compliance_scan s1 = compliance_scan st \<and> (\<exists>s2. add_tally k data key st' = Inr s2)"
  by (auto simp add: add_tally_def and_then_eq_Inr)

lemma process_compliance_any_state:
  assumes "process_compliance_results a st = Inr s1"
    and "compliance_scan st' = compliance_scan st"
  shows "\<exists>s2. process_compliance_results a st' = Inr s2
              \<and> compliance_scan s2 = compliance_scan s1"
proof (cases "\<exists>data. a = Some data \<and> truthy data")
  case False
  with assms show ?thesis
    by (auto simp add: process_compliance_results_def split: option.splits)
next
  case True
  then obtain data where d: "a = Some data" "truthy data" by blast
  from assms(1) d obtain t1 t2 where
    t: "add_tally ''critical_count'' data ''high_severity_count''
          (st\<lparr>compliance_scan := data\<rparr>) = Inr t1"
       "add_tally ''medium_count'' data ''medium_severity_count'' t1 = Inr t2"
       "add_tally ''low_count'' data ''low_severity_count'' t2 = Inr s1"
    by (auto simp add: process_compliance_results_def and_then_eq_Inr)
  from add_tally_any_state [OF t(1), of "st'\<lparr>compliance_scan := data\<rparr>"] obtain u1 where
    u1: "compliance_scan t1 = data"
        "add_tally ''critical_count'' data ''high_severity_count''
          (st'\<lparr>compliance_scan := data\<rparr>) = Inr u1" by auto
  from add_tally_any_state [OF u1(2), of st] have c1: "compliance_scan u1 = data" by simp
  from add_tally_any_state [OF t(2), of u1] obtain u2 where
    u2: "compliance_scan t2 = compliance_scan t1"
        "add_tally ''medium_count'' data ''medium_severity_count'' u1 = Inr u2" by auto
  from add_tally_any_state [OF u2(2), of st] have c2: "compliance_scan u2 = compliance_scan u1"
    by simp
  from add_tally_any_state [OF t(3), of u2] obtain u3 where
    u3: "compliance_scan s1 = compliance_scan t2"
        "add_tally ''low_count'' data ''low_severity_count'' u2 = Inr u3" by auto
  from add_tally_any_state [OF u3(2), of st] have c3: "compliance_scan u3 = compliance_scan u2"
    by simp
  from d u1 u2 u3 c1 c2 c3 show ?thesis
    by (simp add: process_compliance_results_def)
qed

lemma and_then_succeeds:
  "(\<exists>y. and_then r f = Inr y) = (\<exists>x. r = Inr x \<and> (\<exists>y. f x = Inr y))"
  by (cases r) simp_all

lemma findings_recommendation_succeeds:
  "(\<exists>r. findings_recommendation str c key prio text act recs = Inr r) = findings_ok c key"
proof (cases "py_get c key JNull")
  case (Inl e)
  then show ?thesis by (simp add: findings_recommendation_def findings_ok_def)
next
  case (Inr found)
  show ?thesis
  proof (cases "truthy found")
    case False
    with Inr show ?thesis by (simp add: findings_recommendation_def findings_ok_def)
  next
    case True
    show ?thesis
    proof (cases "py_getitem c key")
      case (Inl e)
      with Inr True show ?thesis by (simp add: findings_recommendation_def findings_ok_def)
    next
      case items: (Inr items)
      with Inr True show ?thesis
        by (cases "py_len items") (simp_all add: findings_recommendation_def findings_ok_def)
    qed
  qed
qed

lemma generate_recommendations_succeeds:
  "(\<exists>s. generate_recommendations str st = Inr s)
     = (findings_ok (compliance_scan st) ''secrets_found''
        \<and> findings_ok (compliance_scan st) ''payment_issues'')"
  by (simp add: generate_recommendations_def Let_def and_then_succeeds
      findings_recommendation_succeeds)

lemma generate_markdown_summary_cong:
  "compliance_scan st' = compliance_scan st \<Longrightarrow>
     generate_markdown_summary st' = generate_markdown_summary st"
  by (simp add: generate_markdown_summary_def)

lemma generate_reports_eq_Inr:
  "(generate_reports str ts npm aci esl cpl = Inr st) =
     (\<exists>st1 st2 st3 st4 md.
           process_npm_audit_results npm (init_report ts) = Inr st1
         \<and> process_audit_ci_results aci st1 = Inr st2
         \<and> process_eslint_results esl st2 = Inr st3
         \<and> process_compliance_results cpl st3 = Inr st4
         \<and> generate_recommendations str st4 = Inr st
         \<and> generate_markdown_summary st = Inr md)"
  by (auto simp add: generate_reports_def and_then_eq_Inr)

lemma findings_ok_empty: "findings_ok (JObj []) key"
  by (simp add: findings_ok_def)

lemma markdown_empty:
  "compliance_scan s = JObj [] \<Longrightarrow> generate_markdown_summary s = Inr None"
  by (simp add: generate_markdown_summary_def)

lemma process_none:
  "process_npm_audit_results None st = Inr st"
  "process_audit_ci_results None st = Inr st"
  "process_eslint_results None st = Inr st"
  "process_compliance_results None st = Inr st"
  by (simp_all add: process_npm_audit_results_def process_audit_ci_results_def
      process_eslint_results_def process_compliance_results_def)

lemma compliance_scan_init: "compliance_scan (init_report ts) = JObj []"
  by (simp add: init_report_def)

lemma removing_artifacts:
  assumes run: "generate_reports str ts npm aci esl cpl = Inr st"
    and n: "npm' = npm \<or> npm' = None"
    and a: "aci' = aci \<or> aci' = None"
    and e: "esl' = esl \<or> esl' = None"
    and c: "cpl' = cpl \<or> cpl' = None"
  shows "\<exists>st'. generate_reports str ts npm' aci' esl' cpl' = Inr st'"
proof -
  from run obtain st1 st2 st3 st4 md where
    s: "process_npm_audit_results npm (init_report ts) = Inr st1"
       "process_audit_ci_results aci st1 = Inr st2"
       "process_eslint_results esl st2 = Inr st3"
       "process_compliance_results cpl st3 = Inr st4"
       "generate_recommendations str st4 = Inr st"
       "generate_markdown_summary st = Inr md"
    unfolding generate_reports_eq_Inr by blast
  have c3: "compliance_scan st3 = JObj []"
    using process_npm_any_state [OF s(1)] process_audit_ci_total [of aci st1] s(2)
      process_eslint_any_state [OF s(3)] compliance_scan_init [of ts]
    by auto
  from n s(1) obtain t1 where
    t1: "process_npm_audit_results npm' (init_report ts) = Inr t1"
    by (auto simp add: process_none)
  from process_npm_any_state [OF t1] have k1: "compliance_scan t1 = JObj []"
    by (simp add: compliance_scan_init)
  from process_audit_ci_total [of aci' t1] obtain t2 where
    t2: "process_audit_ci_results aci' t1 = Inr t2" "compliance_scan t2 = JObj []"
    using k1 by auto
  from e process_eslint_any_state [OF s(3), of t2] obtain t3 where
    t3: "process_eslint_results esl' t2 = Inr t3"
    by (auto simp add: process_none)
  from process_eslint_any_state [OF t3] t2 have k3: "compliance_scan t3 = JObj []"
    by simp
  from c3 k3 have same: "compliance_scan t3 = compliance_scan st3" by simp
  from c process_compliance_any_state [OF s(4) same] k3 obtain t4 where
    t4: "process_compliance_results cpl' t3 = Inr t4"
    and k4: "compliance_scan t4 = compliance_scan st4 \<or> compliance_scan t4 = JObj []"
    by (auto simp add: process_none)
  from s(5) have ok4: "findings_ok (compliance_scan st4) ''secrets_found''
      \<and> findings_ok (compliance_scan st4) ''payment_issues''"
    using generate_recommendations_succeeds [of str st4] by blast
  from k4 ok4 have "findings_ok (compliance_scan t4) ''secrets_found''
      \<and> findings_ok (compliance_scan t4) ''payment_issues''"
    by (auto simp add: findings_ok_empty)
  then obtain t5 where t5: "generate_recommendations str t4 = Inr t5"
    using generate_recommendations_succeeds [of str t4] by blast
  have k5: "compliance_scan t5 = compliance_scan t4"
    using generate_recommendations_fields [OF t5] by simp
  have k: "compliance_scan st = compliance_scan st4"
    using generate_recommendations_fields [OF s(5)] by simp
  have "\<exists>md'. generate_markdown_summary t5 = Inr md'"
  proof (cases "compliance_scan t4 = JObj []")
    case True
    with k5 show ?thesis by (simp add: markdown_empty)
  next
    case False
    with k4 k5 k have "compliance_scan t5 = compliance_scan st" by simp
    from generate_markdown_summary_cong [OF this] s(6) show ?thesis by simp
  qed
  then obtain md' where t6: "generate_markdown_summary t5 = Inr md'" by blast
  from t1 t2(1) t3 t4 t5 t6 show ?thesis
    unfolding generate_reports_eq_Inr by blast
qed

lemma no_artifacts:
  "generate_reports str ts None None None None =
     Inr ((init_report ts)\<lparr>recommendations :=
            [\<lparr>priority = INFO,
              message = ''No security issues detected in this scan'',
              action = ''Continue following security best practices''\<rparr>]\<rparr>)"
  by (simp add: generate_reports_def process_none generate_recommendations_def Let_def
      findings_recommendation_def generate_markdown_summary_def init_report_def)

lemma clean_npm_run:
  "generate_reports blank_str [] (Some clean_npm_audit) None None None = Inr clean_npm_report"
  by (simp add: generate_reports_def process_npm_audit_results_def process_none
      clean_npm_audit_def clean_npm_report_def init_report_def generate_recommendations_def
      findings_recommendation_def generate_markdown_summary_def Let_def)

lemma one_secret_run:
  "\<exists>st. generate_reports str ts None None None (Some one_secret_scan) = Inr st
      \<and> summary st = \<lparr>total_issues = 0, critical_count = 1, high_count = 0, medium_count = 0,
                       low_count = 0, info_count = 0\<rparr>
      \<and> map priority (recommendations st) = [CRITICAL, CRITICAL, INFO]"
  by (simp add: generate_reports_def process_none process_compliance_results_def
      one_secret_scan_def add_tally_def summary_add_def init_report_def
      generate_recommendations_def findings_recommendation_def generate_markdown_summary_def
      Let_def)

lemma dependency_scan_increment [simp]:
  "dependency_scan (increment_severity_count severity st) = dependency_scan st"
  by (simp add: increment_severity_count_def Let_def)

lemma update_not_Nil: "AList.update k v al \<noteq> []"
  by (cases al) auto

lemma count_vulnerabilities_dependency_scan:
  "count_vulnerabilities es st = Inr s1 \<Longrightarrow> dependency_scan s1 = dependency_scan st"
proof (induction es arbitrary: st)
  case Nil
  then show ?case by simp
next
  case (Cons a es)
  obtain n d where a: "a = (n, d)" by (cases a)
  from Cons.prems obtain severity where
    r: "count_vulnerabilities es (increment_severity_count severity st) = Inr s1"
    by (auto simp add: a and_then_eq_Inr)
  from Cons.IH [OF r] show ?case by simp
qed

lemma count_messages_dependency_scan:
  "count_messages ms st = Inr s1 \<Longrightarrow> dependency_scan s1 = dependency_scan st"
proof (induction ms arbitrary: st)
  case Nil
  then show ?case by simp
next
  case (Cons m ms)
  from Cons.prems obtain severity where
    r: "count_messages ms (if severity = JInt 2 then increment_severity_count ''high'' st
                        else increment_severity_count ''medium'' st) = Inr s1"
    by (auto simp add: and_then_eq_Inr)
  from Cons.IH [OF r] show ?case by (simp split: if_splits)
qed

lemma count_file_results_dependency_scan:
  "count_file_results fs st = Inr s1 \<Longrightarrow> dependency_scan s1 = dependency_scan st"
proof (induction fs arbitrary: st)
  case Nil
  then show ?case by simp
next
  case (Cons f fs)
  from Cons.prems obtain present where p: "py_in ''messages'' f = Inr present"
    by (auto simp add: and_then_eq_Inr)
  show ?case
  proof (cases present)
    case False
    with Cons.prems p have "count_file_results fs st = Inr s1" by simp
    from Cons.IH [OF this] show ?thesis .
  next
    case True
    with Cons.prems p obtain msgs sm where
      m: "count_messages msgs st = Inr sm"
      and r: "count_file_results fs sm = Inr s1"
      by (auto simp add: and_then_eq_Inr)
    from Cons.IH [OF r] count_messages_dependency_scan [OF m] show ?thesis by simp
  qed
qed

lemma process_npm_dependency_scan:
  assumes "process_npm_audit_results a st = Inr s1"
  shows "(dependency_scan s1 \<noteq> []) = (loaded a \<or> dependency_scan st \<noteq> [])"
proof (cases "\<exists>data. a = Some data \<and> truthy data")
  case False
  with assms show ?thesis
    by (auto simp add: process_npm_audit_results_def loaded_def split: option.splits)
next
  case True
  then obtain data where d: "a = Some data" "truthy data" by blast
  let ?u = "st\<lparr>dependency_scan := AList.update ''npm_audit'' data (dependency_scan st)\<rparr>"
  have unfold: "process_npm_audit_results a st =
      and_then (py_in ''vulnerabilities'' data) (\<lambda>present.
        if present
        then and_then (py_getitem data ''vulnerabilities'') (\<lambda>vulns.
             and_then (py_items vulns) (\<lambda>entries. count_vulnerabilities entries ?u))
        else Inr ?u)"
    using d by (simp add: process_npm_audit_results_def Let_def)
  from assms obtain present where p: "py_in ''vulnerabilities'' data = Inr present"
    by (auto simp add: unfold and_then_eq_Inr)
  have "dependency_scan s1 = dependency_scan ?u"
  proof (cases present)
    case False
    with assms p show ?thesis by (auto simp add: unfold)
  next
    case True
    with assms p obtain entries where
      c: "count_vulnerabilities entries ?u = Inr s1"
      by (auto simp add: unfold and_then_eq_Inr)
    from count_vulnerabilities_dependency_scan [OF c] show ?thesis .
  qed
  with d show ?thesis by (simp add: loaded_def update_not_Nil)
qed

lemma process_audit_ci_dependency_scan:
  assumes "process_audit_ci_results a st = Inr s1"
  shows "(dependency_scan s1 \<noteq> []) = (loaded a \<or> dependency_scan st \<noteq> [])"
  using assms
  by (auto simp add: process_audit_ci_results_def loaded_def update_not_Nil
      split: option.splits if_splits)

lemma process_eslint_dependency_scan:
  assumes "process_eslint_results a st = Inr s1"
  shows "dependency_scan s1 = dependency_scan st"
proof (cases "\<exists>x xs. a = Some (JArr (x # xs))")
  case False
  have "process_eslint_results a st = Inr st"
  proof (cases a)
    case None
    then show ?thesis by (simp add: process_eslint_results_def)
  next
    case (Some data)
    show ?thesis
    proof (cases data)
      case (JArr xs)
      with False Some have "xs = []" by (cases xs) simp_all
      with Some JArr show ?thesis by (simp add: process_eslint_results_def)
    qed (simp_all add: Some process_eslint_results_def)
  qed
  with assms show ?thesis by simp
next
  case True
  then obtain x xs where d: "a = Some (JArr (x # xs))" by blast
  let ?u = "st\<lparr>eslint_security :=
                      AList.update ''results'' (JArr (x # xs)) (eslint_security st)\<rparr>"
  have "process_eslint_results a st = count_file_results (x # xs) ?u"
    using d by (simp add: process_eslint_results_def)
  with assms have c: "count_file_results (x # xs) ?u = Inr s1" by simp
  from count_file_results_dependency_scan [OF c] show ?thesis by simp
qed

lemma add_tally_dependency_scan:
  "add_tally k data key st = Inr s1 \<Longrightarrow> dependency_scan s1 = dependency_scan st"
  by (auto simp add: add_tally_def and_then_eq_Inr)

lemma process_compliance_dependency_scan:
  assumes "process_compliance_results a st = Inr s1"
  shows "dependency_scan s1 = dependency_scan st"
proof (cases "\<exists>data. a = Some data \<and> truthy data")
  case False
  with assms show ?thesis
    by (auto simp add: process_compliance_results_def split: option.splits)
next
  case True
  then obtain data where d: "a = Some data" "truthy data" by blast
  from assms d obtain t1 t2 where
    t: "add_tally ''critical_count'' data ''high_severity_count''
          (st\<lparr>compliance_scan := data\<rparr>) = Inr t1"
       "add_tally ''medium_count'' data ''medium_severity_count'' t1 = Inr t2"
       "add_tally ''low_count'' data ''low_severity_count'' t2 = Inr s1"
    by (auto simp add: process_compliance_results_def and_then_eq_Inr)
  from add_tally_dependency_scan [OF t(1)] add_tally_dependency_scan [OF t(2)]
    add_tally_dependency_scan [OF t(3)]
  show ?thesis by simp
qed

lemma process_compliance_not_loaded:
  "\<not> loaded a \<Longrightarrow> process_compliance_results a st = Inr st"
  by (simp add: process_compliance_results_def loaded_def split: option.splits)

lemma dependency_scan_init: "dependency_scan (init_report ts) = []"
  by (simp add: init_report_def)

lemma medium_iff_loaded:
  assumes "generate_reports str ts npm aci esl cpl = Inr st"
  shows "(MEDIUM \<in> set (map priority (recommendations st))) = (loaded npm \<or> loaded aci)"
proof -
  from generate_reports_steps [OF assms] obtain st1 st2 st3 st4 where
    s: "process_npm_audit_results npm (init_report ts) = Inr st1"
       "process_audit_ci_results aci st1 = Inr st2"
       "process_eslint_results esl st2 = Inr st3"
       "process_compliance_results cpl st3 = Inr st4"
       "generate_recommendations str st4 = Inr st" by blast
  have "(dependency_scan st4 \<noteq> []) = (loaded npm \<or> loaded aci)"
    using process_npm_dependency_scan [OF s(1)] process_audit_ci_dependency_scan [OF s(2)]
      process_eslint_dependency_scan [OF s(3)] process_compliance_dependency_scan [OF s(4)]
      dependency_scan_init [of ts]
    by auto
  with generate_recommendations_priorities [OF s(5)] show ?thesis
    by (auto split: if_splits)
qed

lemma external_run_not_loaded:
  assumes "generate_reports str ts npm aci esl cpl = Inr st" and "\<not> loaded cpl"
  shows "external_only st
       \<and> map priority (recommendations st) =
            (if critical_count (summary st) > 0 then [CRITICAL] else [])
            @ (if high_count (summary st) > 0 then [HIGH] else [])
            @ (if dependency_scan st \<noteq> [] then [MEDIUM] else [])
            @ (if total_issues (summary st) = 0 then [INFO] else [])"
proof -
  from generate_reports_steps [OF assms(1)] obtain st1 st2 st3 st4 where
    s: "process_npm_audit_results npm (init_report ts) = Inr st1"
       "process_audit_ci_results aci st1 = Inr st2"
       "process_eslint_results esl st2 = Inr st3"
       "process_compliance_results cpl st3 = Inr st4"
       "generate_recommendations str st4 = Inr st" by blast
  have "external_only st3"
    using s(1-3) external_only_init external_only_npm external_only_audit_ci
      external_only_eslint by blast
  moreover from s(4) assms(2) have "st4 = st3" by (simp add: process_compliance_not_loaded)
  ultimately have e4: "external_only st4" by simp
  from generate_recommendations_fields [OF s(5)] e4 have e: "external_only st"
    by (simp add: external_only_def)
  from e4 have "compliance_scan st4 = JObj []" by (simp add: external_only_def)
  with has_findings_empty generate_recommendations_priorities [OF s(5)]
    generate_recommendations_fields [OF s(5)]
  have "map priority (recommendations st) =
            (if critical_count (summary st) > 0 then [CRITICAL] else [])
            @ (if high_count (summary st) > 0 then [HIGH] else [])
            @ (if dependency_scan st \<noteq> [] then [MEDIUM] else [])
            @ (if total_issues (summary st) = 0 then [INFO] else [])"
    by auto
  with e show ?thesis by simp
qed

subsection \<open>The claims on the report generator\<close>

text \<open>
  Claim C1, at an input where the code departs from it. The compliance results of a
  scan with one secret, merged with no other artifact, leave a summary whose critical
  bucket is 1 and whose total is 0: \<open>process_compliance_results\<close> adds the tallies to
  the buckets and not to \<open>total_issues\<close>, which \<open>increment_severity_count\<close> does for
  every finding of the other artifacts.
\<close>

theorem compliance_tallies_missing_from_total:
  "run_summary (generate_reports str ts None None None (Some one_secret_scan))
     = Some \<lparr>total_issues = 0, critical_count = 1, high_count = 0, medium_count = 0,
             low_count = 0, info_count = 0\<rparr>"
  using one_secret_run [of str ts] by (auto simp add: run_summary_def)

text \<open>
  Claim C2, as the code has it. The generator has no artifact it cannot do without.
  A run on no artifact at all ends normally, with the summary at zero and the single
  recommendation of priority INFO; and a run that ends normally still ends normally
  when any of its artifacts, the compliance results among them, are taken away.
\<close>

theorem absent_artifacts_never_fail:
  assumes "generate_reports str ts npm aci esl cpl = Inr st"
    and "npm' = npm \<or> npm' = None"
    and "aci' = aci \<or> aci' = None"
    and "esl' = esl \<or> esl' = None"
    and "cpl' = cpl \<or> cpl' = None"
  shows "(\<exists>st'. generate_reports str ts npm' aci' esl' cpl' = Inr st')
       \<and> generate_reports str ts None None None None =
           Inr ((init_report ts)\<lparr>recommendations :=
                  [\<lparr>priority = INFO,
                    message = ''No security issues detected in this scan'',
                    action = ''Continue following security best practices''\<rparr>]\<rparr>)"
  using removing_artifacts [OF assms] no_artifacts [of str ts] by simp

theorem absent_artifacts_never_fail_witness:
  "generate_reports blank_str [] (Some clean_npm_audit) None None None = Inr clean_npm_report
   \<and> (\<exists>st'. generate_reports blank_str [] None None None None = Inr st')"
  using absent_artifacts_never_fail
    [of blank_str "[]" "Some clean_npm_audit" None None None clean_npm_report None None None None]
    clean_npm_run
  by simp

text \<open>
  The claim C2 as stated fails: with the compliance results missing, and every other
  artifact missing too, the run ends normally.
\<close>

theorem missing_compliance_results_counterexample:
  "generate_reports blank_str [] None None None None =
     Inr ((init_report [])\<lparr>recommendations :=
            [\<lparr>priority = INFO,
              message = ''No security issues detected in this scan'',
              action = ''Continue following security best practices''\<rparr>]\<rparr>)"
  by (rule no_artifacts)

text \<open>
  Claim C4, as the code has it. In a run that ends normally the recommendation of
  priority INFO is there exactly when the total of the summary is zero, and the one of
  priority MEDIUM exactly when the npm audit artifact or the audit-ci artifact was
  loaded as a true value, so the two can stand side by side. When no compliance results
  are merged (the artifact is missing, does not parse or is not a true value), INFO is
  there exactly when every bucket is empty, and then no recommendation of priority
  CRITICAL or HIGH is there.
\<close>

theorem info_recommendation:
  assumes "generate_reports str ts npm aci esl cpl = Inr st"
  shows "(INFO \<in> set (map priority (recommendations st))) = (total_issues (summary st) = 0)
       \<and> (MEDIUM \<in> set (map priority (recommendations st))) = (loaded npm \<or> loaded aci)
       \<and> (\<not> loaded cpl \<longrightarrow>
            (INFO \<in> set (map priority (recommendations st)))
              = (critical_count (summary st) = 0 \<and> high_count (summary st) = 0
                 \<and> medium_count (summary st) = 0 \<and> low_count (summary st) = 0
                 \<and> info_count (summary st) = 0)
          \<and> (INFO \<in> set (map priority (recommendations st)) \<longrightarrow>
                CRITICAL \<notin> set (map priority (recommendations st))
              \<and> HIGH \<notin> set (map priority (recommendations st))))"
proof (intro conjI impI)
  show "(INFO \<in> set (map priority (recommendations st))) = (total_issues (summary st) = 0)"
    by (rule info_iff_total [OF assms])
next
  show "(MEDIUM \<in> set (map priority (recommendations st))) = (loaded npm \<or> loaded aci)"
    by (rule medium_iff_loaded [OF assms])
next
  assume c: "\<not> loaded cpl"
  from external_run_not_loaded [OF assms c]
  show "(INFO \<in> set (map priority (recommendations st)))
              = (critical_count (summary st) = 0 \<and> high_count (summary st) = 0
                 \<and> medium_count (summary st) = 0 \<and> low_count (summary st) = 0
                 \<and> info_count (summary st) = 0)"
    by (auto simp add: external_only_def bucket_sum_def split: if_splits)
next
  assume c: "\<not> loaded cpl" and i: "INFO \<in> set (map priority (recommendations st))"
  from external_run_not_loaded [OF assms c] i
  show "CRITICAL \<notin> set (map priority (recommendations st))"
    by (auto simp add: external_only_def bucket_sum_def split: if_splits)
next
  assume c: "\<not> loaded cpl" and i: "INFO \<in> set (map priority (recommendations st))"
  from external_run_not_loaded [OF assms c] i
  show "HIGH \<notin> set (map priority (recommendations st))"
    by (auto simp add: external_only_def bucket_sum_def split: if_splits)
qed

theorem info_recommendation_witness:
  "INFO \<in> set (map priority (recommendations clean_npm_report))
   \<and> MEDIUM \<in> set (map priority (recommendations clean_npm_report))
   \<and> loaded (Some clean_npm_audit) \<and> \<not> loaded None
   \<and> total_issues (summary clean_npm_report) = 0
   \<and> CRITICAL \<notin> set (map priority (recommendations clean_npm_report))
   \<and> HIGH \<notin> set (map priority (recommendations clean_npm_report))"
  using info_recommendation [OF clean_npm_run]
  by (simp add: clean_npm_report_def init_report_def loaded_def clean_npm_audit_def)

text \<open>
  The claim C4 as stated fails: the report on an output of \<open>npm audit\<close> without
  vulnerabilities holds the recommendation of priority MEDIUM and the one of priority
  INFO.
\<close>

theorem info_with_medium_counterexample:
  "run_priorities (generate_reports blank_str [] (Some clean_npm_audit) None None None)
     = [MEDIUM, INFO]"
  by (simp add: clean_npm_run run_priorities_def clean_npm_report_def init_report_def)


section \<open>Properties of the security gate\<close>

















lemma gate_same_report:
  assumes "fs1 report_file = fs2 report_file"
  shows "run_security_gate fs1 = run_security_gate fs2"
  using assms by (simp add: run_security_gate_def load_security_report_def)



subsection \<open>The claims on the security gate\<close>




text \<open>
  Claim C9. Two runs of the gate in working directories that agree on
  security-detailed-report.json end alike, with the same status and the same three
  lists (or the same exception), whatever other files the directories hold, a policy
  file among them; this holds for the script with any arguments too. The thresholds are
  the constants of \<open>__init__\<close>: 0 for critical issues, high issues, secrets and payment
  issues, 5 for the warning on medium issues, 10 for the warning on dependency
  vulnerabilities, and the required scans \<open>compliance_scan\<close> and \<open>dependency_scan\<close>.
\<close>

theorem gate_reads_report_only:
  assumes "fs1 report_file = fs2 report_file"
  shows "run_security_gate fs1 = run_security_gate fs2
       \<and> snd (security_gate_main argv fs1) = snd (security_gate_main argv fs2)
       \<and> the_gate_config =
           \<lparr>max_critical_issues = 0, max_high_issues = 0, max_secrets = 0,
            max_payment_issues = 0, warn_medium_issues = 5, warn_dependency_issues = 10,
            required_scans = [''compliance_scan'', ''dependency_scan'']\<rparr>"
  using gate_same_report [of fs1 fs2] assms
  by (simp add: security_gate_main_def the_gate_config_def)

theorem gate_reads_report_only_witness:
  "run_security_gate (only_report (report_json clean_npm_report))
     = run_security_gate ((only_report (report_json clean_npm_report))
                            (config_file \<mapsto> Parsed lax_config))"
  using gate_reads_report_only
    [of "only_report (report_json clean_npm_report)"
        "(only_report (report_json clean_npm_report))(config_file \<mapsto> Parsed lax_config)" "[]"]
  by (simp add: config_file_def report_file_def)

end
